theory Spec2Isabelle
  imports Main "HOL-Library.Sublist"
begin

section \<open>Python values and the operations fetch\_pubmed.py applies to them\<close>

text \<open>
  \<^verbatim>\<open>xmltodict.parse\<close> and \<^verbatim>\<open>response.json()\<close> hand the program nested Python values: an
  element with children or attributes is a dict, repeated elements are a list, an element
  with text only is a str, an empty element is \<^verbatim>\<open>None\<close>. The program walks these values
  with \<^verbatim>\<open>.get\<close>, \<^verbatim>\<open>[...]\<close>, \<^verbatim>\<open>in\<close>, \<^verbatim>\<open>isinstance\<close> and truth tests, each of which behaves
  differently (or raises) depending on the dynamic type, so the type is kept in the model.
  A dict is an association list read with \<^const>\<open>map_of\<close>. JSON numbers and booleans are not
  represented. Strings are \<^typ>\<open>string\<close>, a \<^typ>\<open>char\<close> being a code point below 256;
  \<^verbatim>\<open>lower\<close>, \<^verbatim>\<open>split\<close> and \<^verbatim>\<open>strip\<close> are those of Python's \<^verbatim>\<open>str\<close> on these code points. Text
  with a code point from 256 on has no counterpart in the model.
\<close>

datatype pyval =
    PNone
  | PStr string
  | PList "pyval list"
  | PDict "(string \<times> pyval) list"

datatype error =
    KeyError string
  | TypeError
  | AttributeError
  | IndexError
  | ExternalError string

definition ebind :: "error + 'a \<Rightarrow> ('a \<Rightarrow> error + 'b) \<Rightarrow> error + 'b" where
  "ebind m f = (case m of Inl e \<Rightarrow> Inl e | Inr v \<Rightarrow> f v)"

text \<open>\<^verbatim>\<open>x.get(k, d)\<close>: only a dict has the method.\<close>

fun py_get :: "pyval \<Rightarrow> string \<Rightarrow> pyval \<Rightarrow> error + pyval" where
  "py_get (PDict kvs) k d = Inr (case map_of kvs k of Some v \<Rightarrow> v | None \<Rightarrow> d)"
| "py_get PNone k d = Inl AttributeError"
| "py_get (PStr s) k d = Inl AttributeError"
| "py_get (PList xs) k d = Inl AttributeError"

text \<open>\<^verbatim>\<open>x[k]\<close> with a str key: a missing key of a dict is a KeyError, a str key on a
  str, a list or \<^verbatim>\<open>None\<close> is a TypeError.\<close>

fun py_getitem :: "pyval \<Rightarrow> string \<Rightarrow> error + pyval" where
  "py_getitem (PDict kvs) k = (case map_of kvs k of Some v \<Rightarrow> Inr v | None \<Rightarrow> Inl (KeyError k))"
| "py_getitem PNone k = Inl TypeError"
| "py_getitem (PStr s) k = Inl TypeError"
| "py_getitem (PList xs) k = Inl TypeError"

text \<open>\<^verbatim>\<open>k in s\<close> on two strings: substring test.\<close>

fun str_contains :: "string \<Rightarrow> string \<Rightarrow> bool" where
  "str_contains k [] = (k = [])"
| "str_contains k (c # cs) = (prefix k (c # cs) \<or> str_contains k cs)"

text \<open>\<^verbatim>\<open>k in x\<close> with a str on the left: key membership for a dict, substring for a str,
  element equality for a list, TypeError for \<^verbatim>\<open>None\<close>.\<close>

fun py_in :: "string \<Rightarrow> pyval \<Rightarrow> error + bool" where
  "py_in k (PDict kvs) = Inr (map_of kvs k \<noteq> None)"
| "py_in k (PStr s) = Inr (str_contains k s)"
| "py_in k (PList xs) = Inr (PStr k \<in> set xs)"
| "py_in k PNone = Inl TypeError"

text \<open>Truth value of \<^verbatim>\<open>if x:\<close>.\<close>

fun truthy :: "pyval \<Rightarrow> bool" where
  "truthy PNone = False"
| "truthy (PStr s) = (s \<noteq> [])"
| "truthy (PList xs) = (xs \<noteq> [])"
| "truthy (PDict kvs) = (kvs \<noteq> [])"

text \<open>\<^verbatim>\<open>isinstance(x, list)\<close>.\<close>

fun is_list :: "pyval \<Rightarrow> bool" where
  "is_list (PList xs) = True"
| "is_list PNone = False"
| "is_list (PStr s) = False"
| "is_list (PDict kvs) = False"

text \<open>\<^verbatim>\<open>if not isinstance(x, list): x = [x]\<close>.\<close>

fun as_list :: "pyval \<Rightarrow> pyval list" where
  "as_list (PList xs) = xs"
| "as_list v = [v]"

text \<open>\<^verbatim>\<open>str.lower()\<close> on one code point below 256: the letters A to Z and the upper-case
  letters 192 to 222 (the multiplication sign 215 apart) move up by 32, every other code
  point stays.\<close>

definition lower_char :: "char \<Rightarrow> char" where
  "lower_char c =
     (let n = (of_char c :: nat) in
      if (65 \<le> n \<and> n \<le> 90) \<or> (192 \<le> n \<and> n \<le> 214) \<or> (216 \<le> n \<and> n \<le> 222)
      then char_of (n + 32) else c)"

definition str_lower :: "string \<Rightarrow> string" where
  "str_lower s = map lower_char s"

text \<open>\<^verbatim>\<open>x.lower()\<close>: only a str has the method.\<close>

fun py_lower :: "pyval \<Rightarrow> error + string" where
  "py_lower (PStr s) = Inr (str_lower s)"
| "py_lower PNone = Inl AttributeError"
| "py_lower (PList xs) = Inl AttributeError"
| "py_lower (PDict kvs) = Inl AttributeError"

text \<open>White space of \<^verbatim>\<open>str.split()\<close> and \<^verbatim>\<open>str.strip()\<close> below code point 256: tab, line
  feed, vertical tab, form feed, carriage return, the four separators 28 to 31, space,
  next line (133) and no-break space (160).\<close>

definition is_space :: "char \<Rightarrow> bool" where
  "is_space c =
     (let n = (of_char c :: nat) in
      (9 \<le> n \<and> n \<le> 13) \<or> (28 \<le> n \<and> n \<le> 32) \<or> n = 133 \<or> n = 160)"

text \<open>\<^verbatim>\<open>s.split()\<close>: the maximal runs of non-space characters, in order. The first
  argument is the token being read.\<close>

fun split_from :: "string \<Rightarrow> string \<Rightarrow> string list" where
  "split_from cur [] = (if cur = [] then [] else [cur])"
| "split_from cur (c # cs) =
     (if is_space c then (if cur = [] then split_from [] cs else cur # split_from [] cs)
      else split_from (cur @ [c]) cs)"

definition str_split :: "string \<Rightarrow> string list" where
  "str_split s = split_from [] s"

fun py_split :: "pyval \<Rightarrow> error + string list" where
  "py_split (PStr s) = Inr (str_split s)"
| "py_split PNone = Inl AttributeError"
| "py_split (PList xs) = Inl AttributeError"
| "py_split (PDict kvs) = Inl AttributeError"

definition str_strip :: "string \<Rightarrow> string" where
  "str_strip s = rev (dropWhile is_space (rev (dropWhile is_space s)))"

text \<open>\<^verbatim>\<open>sep.join(xs)\<close> on a list of strings.\<close>

fun str_join :: "string \<Rightarrow> string list \<Rightarrow> string" where
  "str_join sep [] = []"
| "str_join sep [x] = x"
| "str_join sep (x # y # ys) = x @ sep @ str_join sep (y # ys)"

section \<open>Records, the world, and the library calls\<close>

text \<open>One row of the report: the dict appended to \<^verbatim>\<open>papers\<close> (lines 125 to 131).\<close>

record ArticleRecord =
  PMID :: pyval
  Title :: pyval
  Publication_Date :: pyval
  Non_Academic_Authors :: string
  Corresponding_Author_Email :: string

text \<open>What the program reads of a \<^verbatim>\<open>requests\<close> response.\<close>

record response =
  status_code :: int
  url :: string
  text_body :: string
  json_body :: "error + pyval"

text \<open>The namespace \<^verbatim>\<open>parser.parse_args()\<close> returns (lines 153 to 159): \<^verbatim>\<open>query\<close>,
  \<^verbatim>\<open>max\<close>, \<^verbatim>\<open>debug\<close> and \<^verbatim>\<open>file\<close>, the last \<^verbatim>\<open>None\<close> when the option is not given.\<close>

record args =
  arg_query :: string
  arg_max :: int
  arg_debug :: bool
  arg_file :: "string option"

text \<open>
  Behaviour of the interpreter and of the libraries, which is not code of this repository
  and is a parameter of the model: \<^verbatim>\<open>repr\<close> of a value (what \<^verbatim>\<open>str()\<close> and an f-string print
  for a dict or a list, and how a str is quoted inside one), \<^verbatim>\<open>repr\<close> of the argument
  namespace, \<^verbatim>\<open>str(e)\<close> of a caught
  exception, \<^verbatim>\<open>requests.get\<close>, \<^verbatim>\<open>xmltodict.parse\<close> and \<^verbatim>\<open>DataFrame.to_csv\<close>, each of which
  may raise.
\<close>

record runtime =
  repr :: "pyval \<Rightarrow> string"
  repr_namespace :: "args \<Rightarrow> string"
  exc_str :: "error \<Rightarrow> string"
  requests_get :: "string \<Rightarrow> (string \<times> string) list \<Rightarrow> error + response"
  xmltodict_parse :: "string \<Rightarrow> error + pyval"
  to_csv :: "string \<Rightarrow> ArticleRecord list \<Rightarrow> error option"

text \<open>The effects of a run: the lines printed, the calls of \<^verbatim>\<open>requests.get\<close> (URL and
  parameters) and the calls of \<^verbatim>\<open>to_csv\<close> (file name and rows), each in order.\<close>

record world =
  stdout :: "string list"
  http_gets :: "(string \<times> (string \<times> string) list) list"
  csv_writes :: "(string \<times> ArticleRecord list) list"

definition print_line :: "string \<Rightarrow> world \<Rightarrow> world" where
  "print_line s w = w\<lparr>stdout := stdout w @ [s]\<rparr>"

definition debug_print :: "bool \<Rightarrow> string \<Rightarrow> world \<Rightarrow> world" where
  "debug_print debug s w = (if debug then print_line s w else w)"

text \<open>\<^verbatim>\<open>str(x)\<close>, as an f-string applies it to an interpolated value.\<close>

fun py_str :: "runtime \<Rightarrow> pyval \<Rightarrow> string" where
  "py_str rt (PStr s) = s"
| "py_str rt PNone = ''None''"
| "py_str rt (PList xs) = repr rt (PList xs)"
| "py_str rt (PDict kvs) = repr rt (PDict kvs)"

text \<open>Decimal digits of a length, as an f-string prints it.\<close>

fun show_nat :: "nat \<Rightarrow> string" where
  "show_nat n = (if n < 10 then [char_of (48 + n)] else show_nat (n div 10) @ [char_of (48 + n mod 10)])"

declare show_nat.simps [simp del]

section \<open>The extractor: \<^verbatim>\<open>extract_paper_data\<close>\<close>

definition COMPANY_KEYWORDS :: "string list" where
  "COMPANY_KEYWORDS =
     [''Pharmaceutical'', ''Biotech'', ''Biotechnology'', ''Therapeutics'', ''Pharma'',
      ''BioPharma'', ''Life Sciences'', ''Biosciences'', ''Drug Development'',
      ''Medicines'', ''Inc.'', ''Ltd.'', ''Corp.'', ''GmbH'', ''S.A.'', ''S.p.A.'', ''LLC'']"

text \<open>Line 119, \<^verbatim>\<open>any(keyword.lower() in affiliation.lower() for keyword in ...)\<close>: the
  generator evaluates \<^verbatim>\<open>affiliation.lower()\<close> once for each keyword it reaches, and \<^verbatim>\<open>any\<close>
  stops at the first true test.\<close>

fun any_keyword :: "string list \<Rightarrow> pyval \<Rightarrow> error + bool" where
  "any_keyword [] affiliation = Inr False"
| "any_keyword (keyword # rest) affiliation =
     (case py_lower affiliation of
        Inl e \<Rightarrow> Inl e
      | Inr a \<Rightarrow> if str_contains (str_lower keyword) a then Inr True
                 else any_keyword rest affiliation)"

text \<open>Lines 117 to 121, the loop over one author's affiliation-info nodes. The state is
  the list \<^verbatim>\<open>non_academic_authors\<close>; \<^verbatim>\<open>break\<close> leaves the loop after the first append.\<close>

fun affiliations_loop :: "runtime \<Rightarrow> string \<Rightarrow> pyval list \<Rightarrow> string list \<Rightarrow> error + string list" where
  "affiliations_loop rt author_name [] non_academic_authors = Inr non_academic_authors"
| "affiliations_loop rt author_name (affiliation_info # rest) non_academic_authors =
     (case py_get affiliation_info ''Affiliation'' (PStr []) of
        Inl e \<Rightarrow> Inl e
      | Inr affiliation \<Rightarrow>
          (case any_keyword COMPANY_KEYWORDS affiliation of
             Inl e \<Rightarrow> Inl e
           | Inr True \<Rightarrow>
               Inr (non_academic_authors @ [author_name @ '' ('' @ py_str rt affiliation @ '')''])
           | Inr False \<Rightarrow> affiliations_loop rt author_name rest non_academic_authors))"

text \<open>Line 115 builds the display name; lines 110 to 121 are the body of the loop over
  authors.\<close>

definition author_name_of :: "runtime \<Rightarrow> pyval \<Rightarrow> error + string" where
  "author_name_of rt author =
     ebind (py_get author ''ForeName'' (PStr [])) (\<lambda>fore_name.
     ebind (py_get author ''LastName'' (PStr [])) (\<lambda>last_name.
       Inr (str_strip (py_str rt fore_name @ '' '' @ py_str rt last_name))))"

definition author_body :: "runtime \<Rightarrow> pyval \<Rightarrow> string list \<Rightarrow> error + string list" where
  "author_body rt author non_academic_authors =
     ebind (py_in ''AffiliationInfo'' author) (\<lambda>present.
       if present then
         ebind (py_getitem author ''AffiliationInfo'') (\<lambda>affiliations.
         ebind (author_name_of rt author) (\<lambda>author_name.
           affiliations_loop rt author_name (as_list affiliations) non_academic_authors))
       else Inr non_academic_authors)"

text \<open>Lines 109 to 121.\<close>

fun authors_loop :: "runtime \<Rightarrow> pyval list \<Rightarrow> string list \<Rightarrow> error + string list" where
  "authors_loop rt [] non_academic_authors = Inr non_academic_authors"
| "authors_loop rt (author # rest) non_academic_authors =
     (case author_body rt author non_academic_authors of
        Inl e \<Rightarrow> Inl e
      | Inr non_academic_authors' \<Rightarrow> authors_loop rt rest non_academic_authors')"

text \<open>Line 90: the chain of \<^verbatim>\<open>.get\<close> calls from \<^verbatim>\<open>article_info\<close> to the PubDate node.\<close>

definition pub_date_info_of :: "pyval \<Rightarrow> error + pyval" where
  "pub_date_info_of article_info =
     ebind (py_get article_info ''Journal'' (PDict [])) (\<lambda>journal.
     ebind (py_get journal ''JournalIssue'' (PDict [])) (\<lambda>issue.
       py_get issue ''PubDate'' (PDict [])))"

text \<open>Lines 91 to 96.\<close>

definition resolve_pub_date :: "pyval \<Rightarrow> error + pyval" where
  "resolve_pub_date pub_date_info =
     ebind (py_in ''Year'' pub_date_info) (\<lambda>has_year.
       if has_year then py_getitem pub_date_info ''Year''
       else
         ebind (py_in ''MedlineDate'' pub_date_info) (\<lambda>has_medline_date.
           if has_medline_date then
             ebind (py_getitem pub_date_info ''MedlineDate'') (\<lambda>medline_date.
             ebind (py_split medline_date) (\<lambda>tokens.
               case tokens of [] \<Rightarrow> Inl IndexError | t # ts \<Rightarrow> Inr (PStr t)))
           else Inr (PStr ''Unknown Date'')))"

text \<open>Lines 99 to 105.\<close>

definition authors_of :: "pyval \<Rightarrow> error + pyval list" where
  "authors_of article_info =
     ebind (py_get article_info ''AuthorList'' (PDict [])) (\<lambda>author_list.
       if truthy author_list then
         ebind (py_get author_list ''Author'' (PList [])) (\<lambda>authors. Inr (as_list authors))
       else Inr [])"

text \<open>Lines 85 to 121, everything in the \<^verbatim>\<open>try\<close> block that can raise: the values of
  \<^verbatim>\<open>pmid\<close>, \<^verbatim>\<open>title\<close>, \<^verbatim>\<open>pub_date\<close> and \<^verbatim>\<open>non_academic_authors\<close> at line 123.\<close>

definition article_fields :: "runtime \<Rightarrow> pyval \<Rightarrow> error + (pyval \<times> pyval \<times> pyval \<times> string list)" where
  "article_fields rt article =
     ebind (py_getitem article ''MedlineCitation'') (\<lambda>citation.
     ebind (py_getitem citation ''PMID'') (\<lambda>pmid_node.
     ebind (py_getitem pmid_node ''#text'') (\<lambda>pmid.
     ebind (py_getitem article ''MedlineCitation'') (\<lambda>citation'.
     ebind (py_getitem citation' ''Article'') (\<lambda>article_info.
     ebind (py_get article_info ''ArticleTitle'' (PStr ''No Title'')) (\<lambda>title.
     ebind (pub_date_info_of article_info) (\<lambda>pub_date_info.
     ebind (resolve_pub_date pub_date_info) (\<lambda>pub_date.
     ebind (authors_of article_info) (\<lambda>authors.
     ebind (authors_loop rt authors []) (\<lambda>non_academic_authors.
       Inr (pmid, title, pub_date, non_academic_authors)))))))))))"

definition make_record :: "pyval \<Rightarrow> pyval \<Rightarrow> pyval \<Rightarrow> string list \<Rightarrow> ArticleRecord" where
  "make_record pmid title pub_date non_academic_authors =
     \<lparr>PMID = pmid, Title = title, Publication_Date = pub_date,
      Non_Academic_Authors = str_join ''; '' non_academic_authors,
      Corresponding_Author_Email = ''Not Available''\<rparr>"

text \<open>Lines 83 to 139, the loop over articles. The state is \<^verbatim>\<open>papers\<close> and the world. An
  exception of the \<^verbatim>\<open>try\<close> block reaches the handler, which prints under \<^verbatim>\<open>debug\<close> and goes on
  to the next article.\<close>

fun articles_loop :: "runtime \<Rightarrow> bool \<Rightarrow> pyval list \<Rightarrow> ArticleRecord list \<times> world \<Rightarrow> ArticleRecord list \<times> world" where
  "articles_loop rt debug [] (papers, w) = (papers, w)"
| "articles_loop rt debug (article # rest) (papers, w) =
     (case article_fields rt article of
        Inl e \<Rightarrow>
          articles_loop rt debug rest
            (papers, debug_print debug (''[DEBUG] Error processing article: '' @ exc_str rt e) w)
      | Inr (pmid, title, pub_date, non_academic_authors) \<Rightarrow>
          if non_academic_authors \<noteq> [] then
            articles_loop rt debug rest
              (papers @ [make_record pmid title pub_date non_academic_authors],
               debug_print debug
                 (''[DEBUG] Added paper '' @ py_str rt pmid @ '' with '' @
                  show_nat (length non_academic_authors) @ '' non-academic authors'') w)
          else articles_loop rt debug rest (papers, w))"

text \<open>Lines 76 to 78.\<close>

definition articles_of :: "pyval \<Rightarrow> error + pyval list" where
  "articles_of data_dict =
     ebind (py_get data_dict ''PubmedArticleSet'' (PDict [])) (\<lambda>article_set.
     ebind (py_get article_set ''PubmedArticle'' (PList [])) (\<lambda>articles.
       Inr (as_list articles)))"

text \<open>Lines 67 to 144. An exception of \<^verbatim>\<open>xmltodict.parse\<close> or of lines 76 to 78 is outside
  the \<^verbatim>\<open>try\<close> block and leaves the function.\<close>

definition extract_paper_data :: "runtime \<Rightarrow> string \<Rightarrow> bool \<Rightarrow> world \<Rightarrow> (error + ArticleRecord list) \<times> world" where
  "extract_paper_data rt xml_data debug w =
     (let w1 = debug_print debug ''[DEBUG] Starting XML parsing...'' w in
      case ebind (xmltodict_parse rt xml_data) articles_of of
        Inl e \<Rightarrow> (Inl e, w1)
      | Inr articles \<Rightarrow>
          (let w2 = debug_print debug
                 (''[DEBUG] Found '' @ show_nat (length articles) @ '' articles to process'') w1;
               (papers, w3) = articles_loop rt debug articles ([], w2)
           in (Inr papers,
               debug_print debug
                 (''[DEBUG] Total papers with non-academic authors: '' @
                  show_nat (length papers)) w3)))"

section \<open>Searcher, fetcher, reporter and \<^verbatim>\<open>main\<close>\<close>

definition BASE_URL :: string where
  "BASE_URL = ''https://eutils.ncbi.nlm.nih.gov/entrez/eutils/''"

definition show_int :: "int \<Rightarrow> string" where
  "show_int i = (if i < 0 then ''-'' @ show_nat (nat (- i)) else show_nat (nat i))"

text \<open>\<^verbatim>\<open>len(x)\<close>.\<close>

fun py_len :: "pyval \<Rightarrow> error + nat" where
  "py_len PNone = Inl TypeError"
| "py_len (PStr s) = Inr (length s)"
| "py_len (PList xs) = Inr (length xs)"
| "py_len (PDict kvs) = Inr (length kvs)"

text \<open>The str inside a value, if it is one.\<close>

fun str_of :: "pyval \<Rightarrow> string option" where
  "str_of (PStr s) = Some s"
| "str_of PNone = None"
| "str_of (PList xs) = None"
| "str_of (PDict kvs) = None"

text \<open>\<^verbatim>\<open>",".join(x)\<close>: the elements of a list must all be str; a str is iterated by
  character and a dict by key.\<close>

fun py_join :: "string \<Rightarrow> pyval \<Rightarrow> error + string" where
  "py_join sep (PList xs) =
     (if list_all (\<lambda>x. str_of x \<noteq> None) xs then Inr (str_join sep (map (\<lambda>x. the (str_of x)) xs))
      else Inl TypeError)"
| "py_join sep (PStr s) = Inr (str_join sep (map (\<lambda>c. [c]) s))"
| "py_join sep (PDict kvs) = Inr (str_join sep (map fst kvs))"
| "py_join sep PNone = Inl TypeError"

text \<open>Lines 13 to 39.\<close>

definition search_pubmed :: "runtime \<Rightarrow> string \<Rightarrow> int \<Rightarrow> bool \<Rightarrow> world \<Rightarrow> (error + pyval) \<times> world" where
  "search_pubmed rt query max_results debug w =
     (let params = [(''db'', ''pubmed''), (''term'', query), (''retmax'', show_int max_results),
                    (''retmode'', ''json''), (''sort'', ''date'')];
          w1 = debug_print debug
                 (''[DEBUG] Sending request to PubMed with params: {'' @
                  [CHR 0x27] @ ''db'' @ [CHR 0x27] @ '': '' @ [CHR 0x27] @ ''pubmed'' @ [CHR 0x27] @ '', '' @
                  [CHR 0x27] @ ''term'' @ [CHR 0x27] @ '': '' @ repr rt (PStr query) @ '', '' @
                  [CHR 0x27] @ ''retmax'' @ [CHR 0x27] @ '': '' @ show_int max_results @ '', '' @
                  [CHR 0x27] @ ''retmode'' @ [CHR 0x27] @ '': '' @ [CHR 0x27] @ ''json'' @ [CHR 0x27] @ '', '' @
                  [CHR 0x27] @ ''sort'' @ [CHR 0x27] @ '': '' @ [CHR 0x27] @ ''date'' @ [CHR 0x27] @ ''}'') w;
          w2 = w1\<lparr>http_gets := http_gets w1 @ [(BASE_URL @ ''esearch.fcgi'', params)]\<rparr>
      in case requests_get rt (BASE_URL @ ''esearch.fcgi'') params of
           Inl e \<Rightarrow> (Inl e, w2)
         | Inr resp \<Rightarrow>
             (let w3 = debug_print debug (''[DEBUG] PubMed Search URL: '' @ url resp) w2 in
              if status_code resp = 200 then
                (case ebind (json_body resp) (\<lambda>result.
                       ebind (py_get result ''esearchresult'' (PDict [])) (\<lambda>r.
                         py_get r ''idlist'' (PList []))) of
                   Inl e \<Rightarrow> (Inl e, w3)
                 | Inr id_list \<Rightarrow>
                     if debug then
                       (case py_len id_list of
                          Inl e \<Rightarrow> (Inl e, w3)
                        | Inr n \<Rightarrow>
                            (Inr id_list,
                             print_line (''[DEBUG] Found '' @ show_nat n @ '' PMIDs'') w3))
                     else (Inr id_list, w3))
              else
                (Inr (PList []),
                 print_line (''Error fetching PubMed search results: '' @
                             show_int (status_code resp)) w3)))"

text \<open>Lines 41 to 65. The result is \<^verbatim>\<open>None\<close> or the response text.\<close>

definition fetch_paper_details :: "runtime \<Rightarrow> pyval \<Rightarrow> bool \<Rightarrow> world \<Rightarrow> (error + string option) \<times> world" where
  "fetch_paper_details rt pmids debug w =
     (if \<not> truthy pmids then (Inr None, w)
      else
        (case py_join '','' pmids of
           Inl e \<Rightarrow> (Inl e, w)
         | Inr ids \<Rightarrow>
             (let params = [(''db'', ''pubmed''), (''id'', ids), (''retmode'', ''xml'')] in
              case (if debug then py_len pmids else Inr 0) of
                Inl e \<Rightarrow> (Inl e, w)
              | Inr n \<Rightarrow>
                  (let w1 = debug_print debug
                         (''[DEBUG] Fetching details for '' @ show_nat n @ '' PMIDs'') w;
                       w2 = w1\<lparr>http_gets := http_gets w1 @ [(BASE_URL @ ''efetch.fcgi'', params)]\<rparr>
                   in case requests_get rt (BASE_URL @ ''efetch.fcgi'') params of
                        Inl e \<Rightarrow> (Inl e, w2)
                      | Inr resp \<Rightarrow>
                          (let w3 = debug_print debug (''[DEBUG] PubMed Fetch URL: '' @ url resp) w2;
                               w4 = debug_print debug
                                      (''[DEBUG] Response status: '' @ show_int (status_code resp)) w3
                           in if status_code resp = 200 then (Inr (Some (text_body resp)), w4)
                              else
                                (Inr None,
                                 print_line (''Error fetching paper details: '' @
                                             show_int (status_code resp)) w4))))))"

text \<open>Lines 146 to 150. The call of \<^verbatim>\<open>to_csv\<close> is recorded whether or not it raises.\<close>

definition save_to_csv :: "runtime \<Rightarrow> ArticleRecord list \<Rightarrow> string \<Rightarrow> world \<Rightarrow> (error + unit) \<times> world" where
  "save_to_csv rt papers filename w =
     (let w1 = w\<lparr>csv_writes := csv_writes w @ [(filename, papers)]\<rparr> in
      case to_csv rt filename papers of
        Some e \<Rightarrow> (Inl e, w1)
      | None \<Rightarrow> (Inr (), print_line ([CHR 0x0A] @ ''Results saved to '' @ filename) w1))"

text \<open>Lines 187 to 190, the console layout: three \<^verbatim>\<open>print\<close> calls for each paper.\<close>

fun print_papers :: "runtime \<Rightarrow> ArticleRecord list \<Rightarrow> world \<Rightarrow> world" where
  "print_papers rt [] w = w"
| "print_papers rt (paper # rest) w =
     print_papers rt rest
       (print_line (''Corresponding Email: '' @ Corresponding_Author_Email paper @ [CHR 0x0A])
       (print_line (''Non-Academic Authors: '' @ Non_Academic_Authors paper)
       (print_line (''PMID: '' @ py_str rt (PMID paper) @ '', Title: '' @ py_str rt (Title paper) @
                    '', Date: '' @ py_str rt (Publication_Date paper)) w)))"

text \<open>Lines 161 to 192, \<^verbatim>\<open>main\<close> after the arguments are parsed. \<^verbatim>\<open>if args.file:\<close> is false
  for \<^verbatim>\<open>None\<close> and for the empty string; \<^verbatim>\<open>if not xml_data:\<close> is true for \<^verbatim>\<open>None\<close> and for
  the empty string.\<close>

definition main :: "runtime \<Rightarrow> args \<Rightarrow> world \<Rightarrow> (error + unit) \<times> world" where
  "main rt a w =
     (let w1 = debug_print (arg_debug a) (''[DEBUG] Arguments: '' @ repr_namespace rt a) w;
          w2 = print_line ([CHR 0x0A] @ ''Searching PubMed for: '' @ arg_query a) w1
      in case search_pubmed rt (arg_query a) (arg_max a) (arg_debug a) w2 of
           (Inl e, w3) \<Rightarrow> (Inl e, w3)
         | (Inr pmids, w3) \<Rightarrow>
             if \<not> truthy pmids then (Inr (), print_line ''No articles found.'' w3)
             else
               (case fetch_paper_details rt pmids (arg_debug a)
                       (print_line ([CHR 0x0A] @ ''Fetching article details...'') w3) of
                  (Inl e, w5) \<Rightarrow> (Inl e, w5)
                | (Inr None, w5) \<Rightarrow> (Inr (), print_line ''No data retrieved.'' w5)
                | (Inr (Some xml_data), w5) \<Rightarrow>
                    if xml_data = [] then (Inr (), print_line ''No data retrieved.'' w5)
                    else
                      (case extract_paper_data rt xml_data (arg_debug a)
                              (print_line ([CHR 0x0A] @ ''Extracting required details...'') w5) of
                         (Inl e, w7) \<Rightarrow> (Inl e, w7)
                       | (Inr papers, w7) \<Rightarrow>
                           if papers \<noteq> [] then
                             (case arg_file a of
                                None \<Rightarrow>
                                  (Inr (), print_papers rt papers
                                     (print_line ([CHR 0x0A] @ ''Extracted Papers:'') w7))
                              | Some filename \<Rightarrow>
                                  if filename = [] then
                                    (Inr (), print_papers rt papers
                                       (print_line ([CHR 0x0A] @ ''Extracted Papers:'') w7))
                                  else
                                    (case save_to_csv rt papers filename w7 of
                                       (Inl e, w8) \<Rightarrow> (Inl e, w8)
                                     | (Inr u, w8) \<Rightarrow>
                                         (Inr (),
                                          print_line ([CHR 0x0A] @ ''Saved '' @ show_nat (length papers) @
                                            '' papers with non-academic authors to '' @ filename) w8)))
                           else
                             (Inr (), print_line ''No papers found with non-academic authors.'' w7))))"

section \<open>The vocabulary of the specification\<close>

text \<open>
  The specification speaks of an article's authors, of an author's affiliation strings and
  of a string that case-insensitively contains a keyword. These are read off the parsed
  tree by total functions, independently of the control flow of the extractor: the
  authors are what lines 99 to 105 compute (none where those lines raise), the
  affiliation strings of an author are the str values under \<^verbatim>\<open>Affiliation\<close> of the author's
  affiliation-info nodes (the empty string where the key is missing, as the default of
  line 118), and containment is \<^const>\<open>sublist\<close> of the lower-cased strings.
\<close>

definition article_authors :: "pyval \<Rightarrow> pyval list" where
  "article_authors article =
     (case ebind (py_getitem article ''MedlineCitation'') (\<lambda>citation.
           ebind (py_getitem citation ''Article'') authors_of) of
        Inl e \<Rightarrow> []
      | Inr authors \<Rightarrow> authors)"

fun info_affiliation :: "pyval \<Rightarrow> string list" where
  "info_affiliation (PDict kvs) =
     (case map_of kvs ''Affiliation'' of
        None \<Rightarrow> [[]]
      | Some (PStr s) \<Rightarrow> [s]
      | Some PNone \<Rightarrow> []
      | Some (PList xs) \<Rightarrow> []
      | Some (PDict d) \<Rightarrow> [])"
| "info_affiliation PNone = []"
| "info_affiliation (PStr s) = []"
| "info_affiliation (PList xs) = []"

fun author_affiliations :: "pyval \<Rightarrow> string list" where
  "author_affiliations (PDict kvs) =
     (case map_of kvs ''AffiliationInfo'' of
        None \<Rightarrow> []
      | Some v \<Rightarrow> concat (map info_affiliation (as_list v)))"
| "author_affiliations PNone = []"
| "author_affiliations (PStr s) = []"
| "author_affiliations (PList xs) = []"

definition matches_keyword :: "string \<Rightarrow> bool" where
  "matches_keyword s = list_ex (\<lambda>k. sublist (str_lower k) (str_lower s)) COMPANY_KEYWORDS"

definition has_industry_author :: "pyval \<Rightarrow> bool" where
  "has_industry_author article =
     list_ex (\<lambda>author. list_ex matches_keyword (author_affiliations author)) (article_authors article)"

text \<open>The record the loop body appends for one article, if it appends one.\<close>

definition article_record :: "runtime \<Rightarrow> pyval \<Rightarrow> ArticleRecord option" where
  "article_record rt article =
     (case article_fields rt article of
        Inl e \<Rightarrow> None
      | Inr (pmid, title, pub_date, non_academic_authors) \<Rightarrow>
          if non_academic_authors \<noteq> [] then Some (make_record pmid title pub_date non_academic_authors)
          else None)"

section \<open>Example inputs\<close>

text \<open>A runtime whose parser returns a given tree and whose two HTTP calls succeed with a
  given JSON body and a given text; a world in which nothing has happened yet.\<close>

definition example_runtime :: "pyval \<Rightarrow> runtime" where
  "example_runtime tree =
     \<lparr>repr = (\<lambda>v. ''?''), repr_namespace = (\<lambda>a. ''?''), exc_str = (\<lambda>e. ''?''),
      requests_get = (\<lambda>u ps. Inr \<lparr>status_code = 200, url = u, text_body = ''<PubmedArticleSet/>'',
         json_body = Inr (PDict [(''esearchresult'', PDict [(''idlist'', PList [PStr ''31''])])])\<rparr>),
      xmltodict_parse = (\<lambda>x. Inr tree),
      to_csv = (\<lambda>f rows. None)\<rparr>"

definition empty_world :: world where
  "empty_world = \<lparr>stdout = [], http_gets = [], csv_writes = []\<rparr>"

text \<open>The author of the specification's example, with affiliations \<^verbatim>\<open>University X\<close> and
  \<^verbatim>\<open>Acme Pharma Inc.\<close>, and an author with an academic affiliation only.\<close>

definition example_author :: pyval where
  "example_author =
     PDict [(''LastName'', PStr ''Doe''), (''ForeName'', PStr ''Jane''),
            (''AffiliationInfo'',
               PList [PDict [(''Affiliation'', PStr ''University X'')],
                      PDict [(''Affiliation'', PStr ''Acme Pharma Inc.'')]])]"

definition academic_author :: pyval where
  "academic_author =
     PDict [(''LastName'', PStr ''Roe''), (''ForeName'', PStr ''John''),
            (''AffiliationInfo'', PDict [(''Affiliation'', PStr ''University Y'')])]"

text \<open>An article node with a given PMID node, PubDate node and author collection, and the
  tree of a response whose article collection is a given value.\<close>

definition example_article :: "pyval \<Rightarrow> pyval \<Rightarrow> pyval \<Rightarrow> pyval" where
  "example_article pmid_node pub_date authors =
     PDict [(''MedlineCitation'',
        PDict [(''PMID'', pmid_node),
               (''Article'',
                  PDict [(''ArticleTitle'', PStr ''A study''),
                         (''Journal'', PDict [(''JournalIssue'', PDict [(''PubDate'', pub_date)])]),
                         (''AuthorList'', PDict [(''Author'', authors)])])])]"

definition example_batch :: "pyval \<Rightarrow> pyval" where
  "example_batch articles = PDict [(''PubmedArticleSet'', PDict [(''PubmedArticle'', articles)])]"

definition pmid_31 :: pyval where
  "pmid_31 = PDict [(''@Version'', PStr ''1''), (''#text'', PStr ''31'')]"

definition year_2021 :: pyval where
  "year_2021 = PDict [(''Year'', PStr ''2021'')]"

definition industry_article :: pyval where
  "industry_article = example_article pmid_31 year_2021 example_author"

definition academic_article :: pyval where
  "academic_article = example_article pmid_31 year_2021 academic_author"

text \<open>The industry article with a PMID element that has no attribute, which the parser
  returns as a plain str.\<close>

definition plain_pmid_article :: pyval where
  "plain_pmid_article = example_article (PStr ''31'') year_2021 example_author"

text \<open>The industry article with a blank MedlineDate and no Year.\<close>

definition blank_date_article :: pyval where
  "blank_date_article =
     example_article pmid_31 (PDict [(''MedlineDate'', PStr ''  '')]) example_author"

text \<open>The industry article with no Year and a MedlineDate of two words around a given
  separator; with a MedlineDate of a no-break space and a next-line character; and
  without a Journal node.\<close>

definition medline_article :: "string \<Rightarrow> pyval" where
  "medline_article sep =
     example_article pmid_31 (PDict [(''MedlineDate'', PStr (''2020'' @ sep @ ''Jan-Feb''))]) example_author"

definition nbsp_date_article :: pyval where
  "nbsp_date_article =
     example_article pmid_31 (PDict [(''MedlineDate'', PStr [CHR 0xA0, CHR 0x85])]) example_author"

definition undated_article :: pyval where
  "undated_article =
     PDict [(''MedlineCitation'',
        PDict [(''PMID'', pmid_31),
               (''Article'',
                  PDict [(''ArticleTitle'', PStr ''A study''),
                         (''AuthorList'', PDict [(''Author'', example_author)])])])]"

definition example_args :: args where
  "example_args = \<lparr>arg_query = ''mRNA'', arg_max = 100, arg_debug = False, arg_file = Some ''out.csv''\<rparr>"

section \<open>Facts about the string operations\<close>

lemma str_contains_sublist: "str_contains k s = sublist k s"
proof (induction s)
  case Nil
  show ?case by simp
next
  case (Cons c cs)
  then show ?case by (simp add: sublist_Cons_right)
qed

lemma split_from_spaces: "list_all is_space ws \<Longrightarrow> split_from [] (ws @ s) = split_from [] s"
  by (induction ws) simp_all

lemma split_from_token:
  "list_all (\<lambda>c. \<not> is_space c) t \<Longrightarrow> split_from cur (t @ s) = split_from (cur @ t) s"
  by (induction t arbitrary: cur) simp_all

lemma split_from_end:
  "cur \<noteq> [] \<Longrightarrow> rest = [] \<or> is_space (hd rest) \<Longrightarrow>
   split_from cur rest = cur # split_from [] (tl rest)"
  by (cases rest) auto

text \<open>The first token of \<^verbatim>\<open>split()\<close>: leading white space is dropped, and the token runs
  to the next white space or to the end.\<close>

lemma str_split_first_token:
  assumes "list_all is_space ws" and "t \<noteq> []" and "list_all (\<lambda>c. \<not> is_space c) t"
    and "rest = [] \<or> is_space (hd rest)"
  shows "str_split (ws @ t @ rest) = t # str_split (tl rest)"
  using assms by (simp add: str_split_def split_from_spaces split_from_token split_from_end)

lemma str_split_blank: "list_all is_space s \<Longrightarrow> str_split s = []"
  using split_from_spaces[of s "[]"] by (simp add: str_split_def)

text \<open>A no-break space separates tokens as a space does.\<close>

lemma str_split_no_break_space:
  "str_split (''2020'' @ [CHR 0xA0] @ ''Jan-Feb'') = [''2020'', ''Jan-Feb'']"
  by code_simp

lemma as_list_single: "\<not> is_list v \<Longrightarrow> as_list v = [v]"
  by (cases v) simp_all

section \<open>Facts about keyword matching and the author loops\<close>

lemma any_keyword_str:
  "any_keyword ks (PStr s) = Inr (list_ex (\<lambda>k. sublist (str_lower k) (str_lower s)) ks)"
  by (induction ks) (simp_all add: str_contains_sublist)

lemma any_keyword_COMPANY:
  "any_keyword COMPANY_KEYWORDS (PStr s) = Inr (matches_keyword s)"
  by (simp add: any_keyword_str matches_keyword_def)

lemma any_keyword_Inr:
  assumes "any_keyword ks v = Inr b" and "ks \<noteq> []"
  shows "\<exists>s. v = PStr s"
  using assms by (cases ks; cases v) simp_all

lemma COMPANY_KEYWORDS_nonempty: "COMPANY_KEYWORDS \<noteq> []"
  by (simp add: COMPANY_KEYWORDS_def)

lemma any_keyword_COMPANY_Inr:
  "any_keyword COMPANY_KEYWORDS v = Inr b \<Longrightarrow> \<exists>s. v = PStr s \<and> b = matches_keyword s"
  using any_keyword_Inr[OF _ COMPANY_KEYWORDS_nonempty, of v b] any_keyword_COMPANY by auto

text \<open>The empty string matches no keyword.\<close>

lemma not_matches_empty: "\<not> matches_keyword []"
  by (simp add: matches_keyword_def COMPANY_KEYWORDS_def str_lower_def)


text \<open>A run of the affiliation loop that does not raise either leaves the list as it was,
  and then no affiliation string of the nodes matches, or appends one string.\<close>

lemma affiliations_loop_cases:
  "affiliations_loop rt n infos acc = Inr acc' \<Longrightarrow>
     (acc' = acc \<and> \<not> list_ex matches_keyword (concat (map info_affiliation infos))) \<or>
     ((\<exists>s. acc' = acc @ [s]) \<and> list_ex matches_keyword (concat (map info_affiliation infos)))"
proof (induction infos)
  case Nil
  then show ?case by simp
next
  case (Cons i infos)
  show ?case
  proof (cases i)
    case (PDict kvs)
    show ?thesis
    proof (cases "map_of kvs ''Affiliation''")
      case None
      with PDict Cons show ?thesis
        by (auto simp: any_keyword_COMPANY not_matches_empty split: if_splits)
    next
      case (Some v)
      from Cons.prems PDict Some obtain b where b: "any_keyword COMPANY_KEYWORDS v = Inr b"
        by (auto split: sum.splits)
      then obtain s where s: "v = PStr s" "b = matches_keyword s"
        using any_keyword_COMPANY_Inr by blast
      with PDict Some Cons b show ?thesis
        by (auto simp: any_keyword_COMPANY split: if_splits)
    qed
  qed (use Cons.prems in simp_all)
qed



lemma author_body_cases:
  "author_body rt author acc = Inr acc' \<Longrightarrow>
     (acc' = acc \<and> \<not> list_ex matches_keyword (author_affiliations author)) \<or>
     ((\<exists>s. acc' = acc @ [s]) \<and> list_ex matches_keyword (author_affiliations author))"
proof (cases author)
  case (PDict kvs)
  assume a: "author_body rt author acc = Inr acc'"
  show ?thesis
  proof (cases "map_of kvs ''AffiliationInfo''")
    case None
    with a PDict show ?thesis by (simp add: author_body_def ebind_def)
  next
    case (Some v)
    with a PDict obtain n where "affiliations_loop rt n (as_list v) acc = Inr acc'"
      by (auto simp: author_body_def ebind_def author_name_of_def split: sum.splits)
    from affiliations_loop_cases[OF this] PDict Some show ?thesis by simp
  qed
qed (auto simp: author_body_def ebind_def split: if_splits sum.splits)

lemma authors_loop_nonempty:
  "authors_loop rt authors acc = Inr naa \<Longrightarrow>
     (naa \<noteq> []) =
     (acc \<noteq> [] \<or> list_ex (\<lambda>a. list_ex matches_keyword (author_affiliations a)) authors)"
proof (induction authors arbitrary: acc)
  case Nil
  then show ?case by simp
next
  case (Cons a authors)
  from Cons.prems obtain acc' where b: "author_body rt a acc = Inr acc'"
    and l: "authors_loop rt authors acc' = Inr naa"
    by (auto split: sum.splits)
  from author_body_cases[OF b] Cons.IH[OF l] show ?case by auto
qed

section \<open>Facts about one article and about the loop over articles\<close>

lemma article_fields_naa:
  assumes "article_fields rt article = Inr (pmid, title, pub_date, naa)"
  shows "(naa \<noteq> []) = has_industry_author article"
proof -
  from assms obtain citation article_info authors where
    c: "py_getitem article ''MedlineCitation'' = Inr citation"
    and i: "py_getitem citation ''Article'' = Inr article_info"
    and a: "authors_of article_info = Inr authors"
    and l: "authors_loop rt authors [] = Inr naa"
    by (auto simp: article_fields_def ebind_def split: sum.splits)
  have "article_authors article = authors"
    by (simp add: article_authors_def ebind_def c i a)
  with authors_loop_nonempty[OF l] show ?thesis by (simp add: has_industry_author_def)
qed

lemma article_record_iff:
  "(article_record rt article \<noteq> None) =
     ((\<forall>e. article_fields rt article \<noteq> Inl e) \<and> has_industry_author article)"
proof (cases "article_fields rt article")
  case (Inl e)
  then show ?thesis by (simp add: article_record_def)
next
  case (Inr t)
  obtain p ti d naa where t: "t = (p, ti, d, naa)" by (cases t) auto
  with Inr article_fields_naa[of rt article p ti d naa] show ?thesis
    by (simp add: article_record_def)
qed

lemma article_record_raise: "article_fields rt article = Inl e \<Longrightarrow> article_record rt article = None"
  by (simp add: article_record_def)

lemma article_record_email:
  "article_record rt article = Some r \<Longrightarrow> Corresponding_Author_Email r = ''Not Available''"
  by (auto simp: article_record_def make_record_def split: sum.splits if_splits)

text \<open>The loop appends, in input order, the record of every article that has one.\<close>

lemma articles_loop_fst:
  "fst (articles_loop rt debug articles (papers, w)) =
     papers @ List.map_filter (article_record rt) articles"
proof (induction articles arbitrary: papers w)
  case Nil
  show ?case by simp
next
  case (Cons a articles)
  show ?case by (cases "article_fields rt a") (auto simp: article_record_def Cons.IH)
qed

lemma extract_paper_data_fst:
  assumes "xmltodict_parse rt xml_data = Inr data_dict" and "articles_of data_dict = Inr articles"
  shows "fst (extract_paper_data rt xml_data debug w) =
           Inr (List.map_filter (article_record rt) articles)"
  using assms articles_loop_fst[of rt debug articles "[]"]
  by (simp add: extract_paper_data_def ebind_def Let_def split: prod.splits) (metis fst_conv)

lemma extract_paper_data_Inr:
  assumes "fst (extract_paper_data rt xml_data debug w) = Inr papers"
  shows "\<exists>data_dict articles. xmltodict_parse rt xml_data = Inr data_dict \<and>
           articles_of data_dict = Inr articles"
  using assms
  by (auto simp: extract_paper_data_def ebind_def Let_def split: sum.splits prod.splits)

lemma map_filter_append:
  "List.map_filter f (xs @ ys) = List.map_filter f xs @ List.map_filter f ys"
  by (simp add: List.map_filter_def)

lemma set_map_filter: "r \<in> set (List.map_filter f xs) \<Longrightarrow> \<exists>x. f x = Some r"
  by (induction xs) (auto split: option.splits)

section \<open>Facts about the publication date\<close>

lemma resolve_year: "map_of d ''Year'' = Some y \<Longrightarrow> resolve_pub_date (PDict d) = Inr y"
  by (simp add: resolve_pub_date_def ebind_def)

lemma resolve_medline:
  "map_of d ''Year'' = None \<Longrightarrow> map_of d ''MedlineDate'' = Some (PStr s) \<Longrightarrow>
   resolve_pub_date (PDict d) =
     (case str_split s of [] \<Rightarrow> Inl IndexError | t # ts \<Rightarrow> Inr (PStr t))"
  by (simp add: resolve_pub_date_def ebind_def)

lemma resolve_unknown:
  "map_of d ''Year'' = None \<Longrightarrow> map_of d ''MedlineDate'' = None \<Longrightarrow>
   resolve_pub_date (PDict d) = Inr (PStr ''Unknown Date'')"
  by (simp add: resolve_pub_date_def ebind_def)

text \<open>Line 90 on an \<^verbatim>\<open>article_info\<close> dict: the PubDate node where the path of dicts leads to
  one, the empty dict where a key of the path is missing.\<close>

lemma pub_date_info_of_present:
  "map_of i ''Journal'' = Some (PDict j) \<Longrightarrow> map_of j ''JournalIssue'' = Some (PDict s) \<Longrightarrow>
   map_of s ''PubDate'' = Some v \<Longrightarrow> pub_date_info_of (PDict i) = Inr v"
  by (simp add: pub_date_info_of_def ebind_def)

lemma pub_date_info_of_absent:
  "map_of i ''Journal'' = None \<or>
   (map_of i ''Journal'' = Some (PDict j) \<and>
      (map_of j ''JournalIssue'' = None \<or>
       (map_of j ''JournalIssue'' = Some (PDict s) \<and> map_of s ''PubDate'' = None))) \<Longrightarrow>
   pub_date_info_of (PDict i) = Inr (PDict [])"
  by (auto simp: pub_date_info_of_def ebind_def)

text \<open>The date field of an article's record is the date resolved from the node line 90
  reads.\<close>

lemma article_record_pub_date:
  assumes "map_of a ''MedlineCitation'' = Some (PDict c)"
    and "map_of c ''Article'' = Some (PDict i)"
    and "pub_date_info_of (PDict i) = Inr info"
    and "article_record rt (PDict a) = Some r"
  shows "resolve_pub_date info = Inr (Publication_Date r)"
  using assms
  by (auto simp: article_record_def article_fields_def ebind_def make_record_def
           split: sum.splits if_splits)

section \<open>Facts about the effects\<close>

lemma print_line_csv [simp]: "csv_writes (print_line s w) = csv_writes w"
  by (simp add: print_line_def)

lemma debug_print_csv [simp]: "csv_writes (debug_print d s w) = csv_writes w"
  by (simp add: debug_print_def)

lemma search_pubmed_csv: "csv_writes (snd (search_pubmed rt q m d w)) = csv_writes w"
  by (simp add: search_pubmed_def Let_def split: sum.splits)

lemma fetch_paper_details_csv: "csv_writes (snd (fetch_paper_details rt p d w)) = csv_writes w"
  by (simp add: fetch_paper_details_def Let_def split: sum.splits)

lemma articles_loop_csv: "csv_writes (snd (articles_loop rt d arts (papers, w))) = csv_writes w"
  by (induction arts arbitrary: papers w) (simp_all split: sum.splits)

lemma extract_paper_data_csv: "csv_writes (snd (extract_paper_data rt x d w)) = csv_writes w"
  using articles_loop_csv[of rt d _ "[]"]
  by (auto simp: extract_paper_data_def Let_def split: sum.splits prod.splits)
     (metis snd_conv debug_print_csv)

lemma print_papers_csv: "csv_writes (print_papers rt papers w) = csv_writes w"
  by (induction papers arbitrary: w) simp_all

lemma save_to_csv_csv:
  "csv_writes (snd (save_to_csv rt papers filename w)) = csv_writes w @ [(filename, papers)]"
  by (simp add: save_to_csv_def Let_def split: option.splits)

text \<open>A run of \<^verbatim>\<open>main\<close> calls \<^verbatim>\<open>to_csv\<close> at most once, and only with a non-empty list of
  records and a non-empty file name.\<close>

lemma main_csv_writes:
  "csv_writes (snd (main rt a w)) = csv_writes w \<or>
   (\<exists>papers filename. papers \<noteq> [] \<and> filename \<noteq> [] \<and> arg_file a = Some filename \<and>
      csv_writes (snd (main rt a w)) = csv_writes w @ [(filename, papers)])"
proof -
  let ?w2 = "print_line ([CHR 0x0A] @ ''Searching PubMed for: '' @ arg_query a)
                (debug_print (arg_debug a) (''[DEBUG] Arguments: '' @ repr_namespace rt a) w)"
  obtain r3 w3 where s: "search_pubmed rt (arg_query a) (arg_max a) (arg_debug a) ?w2 = (r3, w3)"
    by (cases "search_pubmed rt (arg_query a) (arg_max a) (arg_debug a) ?w2")
  have c3: "csv_writes w3 = csv_writes w"
    using search_pubmed_csv[of rt "arg_query a" "arg_max a" "arg_debug a" ?w2] s by simp
  show ?thesis
  proof (cases r3)
    case (Inl e)
    with s c3 show ?thesis by (simp add: main_def Let_def)
  next
    case (Inr pmids)
    show ?thesis
    proof (cases "truthy pmids")
      case False
      with s c3 Inr show ?thesis by (simp add: main_def Let_def)
    next
      case True
      let ?w4 = "print_line ([CHR 0x0A] @ ''Fetching article details...'') w3"
      obtain r5 w5 where f: "fetch_paper_details rt pmids (arg_debug a) ?w4 = (r5, w5)"
        by (cases "fetch_paper_details rt pmids (arg_debug a) ?w4")
      have c5: "csv_writes w5 = csv_writes w"
        using fetch_paper_details_csv[of rt pmids "arg_debug a" ?w4] f c3 by simp
      show ?thesis
      proof (cases "\<exists>xml_data. r5 = Inr (Some xml_data) \<and> xml_data \<noteq> []")
        case False
        with s Inr True f c5 show ?thesis
          by (cases r5) (auto simp: main_def Let_def split: option.splits)
      next
        case x: True
        then obtain xml_data where r5: "r5 = Inr (Some xml_data)" and ne: "xml_data \<noteq> []" by blast
        let ?w6 = "print_line ([CHR 0x0A] @ ''Extracting required details...'') w5"
        obtain r7 w7 where e: "extract_paper_data rt xml_data (arg_debug a) ?w6 = (r7, w7)"
          by (cases "extract_paper_data rt xml_data (arg_debug a) ?w6")
        have c7: "csv_writes w7 = csv_writes w"
          using extract_paper_data_csv[of rt xml_data "arg_debug a" ?w6] e c5 by simp
        show ?thesis
        proof (cases r7)
          case (Inl e')
          with s Inr True f r5 ne e c7 show ?thesis by (simp add: main_def Let_def)
        next
          case p: (Inr papers)
          show ?thesis
          proof (cases "papers \<noteq> [] \<and> (\<exists>filename. arg_file a = Some filename \<and> filename \<noteq> [])")
            case False
            with s Inr True f r5 ne e c7 p show ?thesis
              by (auto simp: main_def Let_def print_papers_csv split: option.splits)
          next
            case t: True
            then obtain filename where fn: "arg_file a = Some filename" "filename \<noteq> []" by blast
            obtain r8 w8 where sv: "save_to_csv rt papers filename w7 = (r8, w8)"
              by (cases "save_to_csv rt papers filename w7")
            have c8: "csv_writes w8 = csv_writes w @ [(filename, papers)]"
              using save_to_csv_csv[of rt papers filename w7] sv c7 by simp
            have "csv_writes (snd (main rt a w)) = csv_writes w8"
              using s Inr True f r5 ne e p t fn sv
              by (cases r8) (simp_all add: main_def Let_def)
            with c8 t fn show ?thesis by auto
          qed
        qed
      qed
    qed
  qed
qed

text \<open>For a non-empty list of identifier strings the fetcher calls \<^verbatim>\<open>requests.get\<close> exactly
  once, with the identifiers joined by commas.\<close>

lemma fetch_of_ids_makes_one_request:
  assumes "ids \<noteq> []"
  shows "http_gets (snd (fetch_paper_details rt (PList (map PStr ids)) debug w)) =
           http_gets w @ [(BASE_URL @ ''efetch.fcgi'',
              [(''db'', ''pubmed''), (''id'', str_join '','' ids), (''retmode'', ''xml'')])]"
proof -
  have a: "list_all (\<lambda>x. str_of x \<noteq> None) (map PStr ids)"
    by (induction ids) simp_all
  have b: "map (\<lambda>x. the (str_of x)) (map PStr ids) = ids"
    by (induction ids) simp_all
  show ?thesis
    using assms a b
    by (simp add: fetch_paper_details_def Let_def debug_print_def print_line_def split: sum.splits)
qed

section \<open>Evaluation of the examples\<close>

lemma article_fields_industry:
  "article_fields rt industry_article =
     Inr (PStr ''31'', PStr ''A study'', PStr ''2021'', [''Jane Doe (Acme Pharma Inc.)''])"
  by code_simp

lemma article_fields_academic:
  "article_fields rt academic_article = Inr (PStr ''31'', PStr ''A study'', PStr ''2021'', [])"
  by code_simp

lemma article_fields_plain_pmid: "article_fields rt plain_pmid_article = Inl TypeError"
  by code_simp

lemma article_fields_blank_date: "article_fields rt blank_date_article = Inl IndexError"
  by code_simp

lemma has_industry_author_examples:
  "has_industry_author industry_article" "\<not> has_industry_author academic_article"
  "has_industry_author plain_pmid_article" "has_industry_author blank_date_article"
  by code_simp+

lemma article_record_industry:
  "article_record rt industry_article =
     Some (make_record (PStr ''31'') (PStr ''A study'') (PStr ''2021'') [''Jane Doe (Acme Pharma Inc.)''])"
  by (simp add: article_record_def article_fields_industry)

lemma article_record_academic: "article_record rt academic_article = None"
  by (simp add: article_record_def article_fields_academic)

lemma article_fields_medline:
  "article_fields rt (medline_article '' '') =
     Inr (PStr ''31'', PStr ''A study'', PStr ''2020'', [''Jane Doe (Acme Pharma Inc.)''])"
  by code_simp

lemma article_fields_medline_nbsp:
  "article_fields rt (medline_article [CHR 0xA0]) =
     Inr (PStr ''31'', PStr ''A study'', PStr ''2020'', [''Jane Doe (Acme Pharma Inc.)''])"
  by code_simp

lemma article_fields_undated:
  "article_fields rt undated_article =
     Inr (PStr ''31'', PStr ''A study'', PStr ''Unknown Date'', [''Jane Doe (Acme Pharma Inc.)''])"
  by code_simp

lemma article_fields_nbsp_date: "article_fields rt nbsp_date_article = Inl IndexError"
  by code_simp

lemma has_industry_author_nbsp: "has_industry_author nbsp_date_article"
  by code_simp

lemma article_record_medline:
  "article_record rt (medline_article '' '') =
     Some (make_record (PStr ''31'') (PStr ''A study'') (PStr ''2020'') [''Jane Doe (Acme Pharma Inc.)''])"
  by (simp add: article_record_def article_fields_medline)

lemma article_record_medline_nbsp:
  "article_record rt (medline_article [CHR 0xA0]) =
     Some (make_record (PStr ''31'') (PStr ''A study'') (PStr ''2020'') [''Jane Doe (Acme Pharma Inc.)''])"
  by (simp add: article_record_def article_fields_medline_nbsp)

lemma article_record_undated:
  "article_record rt undated_article =
     Some (make_record (PStr ''31'') (PStr ''A study'') (PStr ''Unknown Date'') [''Jane Doe (Acme Pharma Inc.)''])"
  by (simp add: article_record_def article_fields_undated)

lemma articles_of_batch_list: "articles_of (example_batch (PList xs)) = Inr xs"
  by (simp add: articles_of_def example_batch_def ebind_def)

lemma articles_of_batch_single: "\<not> is_list a \<Longrightarrow> articles_of (example_batch a) = Inr [a]"
  by (simp add: articles_of_def example_batch_def ebind_def as_list_single)

lemma parse_example: "xmltodict_parse (example_runtime tree) x = Inr tree"
  by (simp add: example_runtime_def)

section \<open>The claims\<close>

text \<open>
  C1 (as stated: a record appears in the output of \<^verbatim>\<open>extract_paper_data\<close> if and only if
  at least one author of the article has an affiliation string that case-insensitively
  contains a keyword of \<^verbatim>\<open>COMPANY_KEYWORDS\<close>). The statement fails where processing the
  article raises: the article with the example's industry author and a PMID element
  without attributes has an author with a matching affiliation, line 85 raises a
  TypeError on it, and the output is empty.
\<close>

theorem industry_author_without_record:
  "has_industry_author plain_pmid_article \<and>
   article_fields (example_runtime (example_batch plain_pmid_article)) plain_pmid_article = Inl TypeError \<and>
   fst (extract_paper_data (example_runtime (example_batch plain_pmid_article)) ''<xml/>'' False
          empty_world) = Inr []"
proof -
  have n: "\<not> is_list plain_pmid_article"
    by (simp add: plain_pmid_article_def example_article_def)
  have "fst (extract_paper_data (example_runtime (example_batch plain_pmid_article)) ''<xml/>'' False
          empty_world) = Inr (List.map_filter
            (article_record (example_runtime (example_batch plain_pmid_article))) [plain_pmid_article])"
    by (rule extract_paper_data_fst[OF parse_example articles_of_batch_single[OF n]])
  then show ?thesis
    by (simp add: has_industry_author_examples article_fields_plain_pmid article_record_raise)
qed

text \<open>
  C1 (amended): the output of \<^verbatim>\<open>extract_paper_data\<close> is, in input order, the records of
  the articles that have one, and an article has a record if and only if processing it
  raises no exception and at least one of its authors has an affiliation string that
  case-insensitively contains a keyword of \<^verbatim>\<open>COMPANY_KEYWORDS\<close>.
\<close>

theorem record_iff_no_exception_and_industry_author:
  assumes "xmltodict_parse rt xml_data = Inr data_dict"
    and "articles_of data_dict = Inr articles"
  shows "fst (extract_paper_data rt xml_data debug w) =
           Inr (List.map_filter (article_record rt) articles) \<and>
         (\<forall>article. (article_record rt article \<noteq> None) =
            ((\<forall>e. article_fields rt article \<noteq> Inl e) \<and> has_industry_author article))"
  using extract_paper_data_fst[OF assms] article_record_iff by simp

theorem record_iff_no_exception_and_industry_author_witness:
  "xmltodict_parse (example_runtime (example_batch (PList [industry_article, academic_article])))
     ''<xml/>'' = Inr (example_batch (PList [industry_article, academic_article])) \<and>
   articles_of (example_batch (PList [industry_article, academic_article])) =
     Inr [industry_article, academic_article] \<and>
   fst (extract_paper_data (example_runtime (example_batch (PList [industry_article, academic_article])))
          ''<xml/>'' False empty_world) =
     Inr [make_record (PStr ''31'') (PStr ''A study'') (PStr ''2021'') [''Jane Doe (Acme Pharma Inc.)'']] \<and>
   has_industry_author industry_article \<and> \<not> has_industry_author academic_article"
proof -
  let ?T = "example_batch (PList [industry_article, academic_article])"
  have p: "xmltodict_parse (example_runtime ?T) ''<xml/>'' = Inr ?T"
    by (rule parse_example)
  have a: "articles_of ?T = Inr [industry_article, academic_article]"
    by (rule articles_of_batch_list)
  from record_iff_no_exception_and_industry_author[OF p a, of False empty_world]
  have "fst (extract_paper_data (example_runtime ?T) ''<xml/>'' False empty_world) =
      Inr (List.map_filter (article_record (example_runtime ?T)) [industry_article, academic_article])"
    by (rule conjunct1)
  then show ?thesis
    using p a by (simp add: article_record_industry article_record_academic has_industry_author_examples)
qed

text \<open>
  C6: an exception raised while one article is processed is caught in the loop and only
  that article is skipped. When the tree is parsed and lines 76 to 78 yield the article
  list, \<^verbatim>\<open>extract_paper_data\<close> returns a list (it does not raise), and when processing
  one article of the list raises, the list returned holds the records of the articles
  before it followed by the records of the articles after it.
\<close>

theorem article_exception_skips_only_that_article:
  assumes "xmltodict_parse rt xml_data = Inr data_dict"
    and "articles_of data_dict = Inr (before @ bad # after)"
    and "article_fields rt bad = Inl e"
  shows "fst (extract_paper_data rt xml_data debug w) =
           Inr (List.map_filter (article_record rt) before @ List.map_filter (article_record rt) after)"
  using extract_paper_data_fst[OF assms(1,2)] article_record_raise[OF assms(3)]
  by (simp add: map_filter_append)

theorem article_exception_skips_only_that_article_witness:
  "articles_of (example_batch (PList [industry_article, plain_pmid_article, industry_article])) =
     Inr ([industry_article] @ plain_pmid_article # [industry_article]) \<and>
   article_fields (example_runtime (example_batch (PList [industry_article, plain_pmid_article, industry_article])))
     plain_pmid_article = Inl TypeError \<and>
   fst (extract_paper_data
          (example_runtime (example_batch (PList [industry_article, plain_pmid_article, industry_article])))
          ''<xml/>'' True empty_world) =
     Inr [make_record (PStr ''31'') (PStr ''A study'') (PStr ''2021'') [''Jane Doe (Acme Pharma Inc.)''],
          make_record (PStr ''31'') (PStr ''A study'') (PStr ''2021'') [''Jane Doe (Acme Pharma Inc.)'']]"
proof -
  let ?T = "example_batch (PList [industry_article, plain_pmid_article, industry_article])"
  have p: "xmltodict_parse (example_runtime ?T) ''<xml/>'' = Inr ?T"
    by (rule parse_example)
  have a: "articles_of ?T = Inr ([industry_article] @ plain_pmid_article # [industry_article])"
    by (simp add: articles_of_batch_list)
  have b: "article_fields (example_runtime ?T) plain_pmid_article = Inl TypeError"
    by (rule article_fields_plain_pmid)
  from article_exception_skips_only_that_article[OF p a b, of True empty_world] a b
  show ?thesis by (simp add: article_record_industry)
qed

text \<open>
  C9: every record in the list \<^verbatim>\<open>extract_paper_data\<close> returns has the corresponding-author
  email field \<^verbatim>\<open>Not Available\<close>.
\<close>

theorem email_is_always_the_placeholder:
  assumes "fst (extract_paper_data rt xml_data debug w) = Inr papers" and "r \<in> set papers"
  shows "Corresponding_Author_Email r = ''Not Available''"
proof -
  from extract_paper_data_Inr[OF assms(1)] obtain data_dict articles where
    p: "xmltodict_parse rt xml_data = Inr data_dict" and a: "articles_of data_dict = Inr articles"
    by blast
  have "fst (extract_paper_data rt xml_data debug w) = Inr (List.map_filter (article_record rt) articles)"
    by (rule extract_paper_data_fst[OF p a])
  with assms(1) have "papers = List.map_filter (article_record rt) articles" by simp
  with assms(2) have "r \<in> set (List.map_filter (article_record rt) articles)" by simp
  then obtain x where "article_record rt x = Some r"
    by (rule set_map_filter[THEN exE])
  then show ?thesis by (rule article_record_email)
qed


theorem email_is_always_the_placeholder_witness:
  "fst (extract_paper_data (example_runtime (example_batch industry_article)) ''<xml/>'' False empty_world) =
     Inr [make_record (PStr ''31'') (PStr ''A study'') (PStr ''2021'') [''Jane Doe (Acme Pharma Inc.)'']] \<and>
   Corresponding_Author_Email
     (make_record (PStr ''31'') (PStr ''A study'') (PStr ''2021'') [''Jane Doe (Acme Pharma Inc.)'']) =
     ''Not Available''"
proof -
  let ?r = "make_record (PStr ''31'') (PStr ''A study'') (PStr ''2021'') [''Jane Doe (Acme Pharma Inc.)'']"
  have n: "\<not> is_list industry_article"
    by (simp add: industry_article_def example_article_def)
  have "fst (extract_paper_data (example_runtime (example_batch industry_article)) ''<xml/>'' False
              empty_world) =
        Inr (List.map_filter (article_record (example_runtime (example_batch industry_article)))
               [industry_article])"
    by (rule extract_paper_data_fst[OF parse_example articles_of_batch_single[OF n]])
  then have x: "fst (extract_paper_data (example_runtime (example_batch industry_article)) ''<xml/>'' False
              empty_world) = Inr [?r]"
    by (simp add: article_record_industry)
  have m: "?r \<in> set [?r]" by (rule list.set_intros(1))
  have "Corresponding_Author_Email ?r = ''Not Available''"
    by (rule email_is_always_the_placeholder[OF x m])
  with x show ?thesis by (rule conjI)
qed

text \<open>
  C2: the publication date of an article's record is resolved by tiered fallback from the
  PubDate node of the article, the node under \<^verbatim>\<open>Journal\<close>, \<^verbatim>\<open>JournalIssue\<close>, \<^verbatim>\<open>PubDate\<close> of
  the article's \<^verbatim>\<open>Article\<close> node, taken as a node without fields where a key of that path is
  missing. For an article of the batch that has a record, the record stands in the output
  of \<^verbatim>\<open>extract_paper_data\<close> at the article's place, and its date is: the value of the
  \<^verbatim>\<open>Year\<close> field if the node has one; otherwise, if the node has a \<^verbatim>\<open>MedlineDate\<close> field whose
  text is white space, then a token, then nothing or white space and more text, that
  first token; otherwise, with neither field, \<^verbatim>\<open>Unknown Date\<close>.
\<close>

theorem pub_date_tiered_fallback:
  assumes "xmltodict_parse rt xml_data = Inr data_dict"
    and "articles_of data_dict = Inr (before @ PDict article # after)"
    and "map_of article ''MedlineCitation'' = Some (PDict citation)"
    and "map_of citation ''Article'' = Some (PDict info)"
    and "(map_of info ''Journal'' = Some (PDict journal) \<and>
          map_of journal ''JournalIssue'' = Some (PDict issue) \<and>
          map_of issue ''PubDate'' = Some (PDict d)) \<or>
         (d = [] \<and>
          (map_of info ''Journal'' = None \<or>
           (map_of info ''Journal'' = Some (PDict journal) \<and>
              (map_of journal ''JournalIssue'' = None \<or>
               (map_of journal ''JournalIssue'' = Some (PDict issue) \<and>
                map_of issue ''PubDate'' = None)))))"
    and "article_record rt (PDict article) = Some r"
  shows "fst (extract_paper_data rt xml_data debug w) =
           Inr (List.map_filter (article_record rt) before @ r #
                List.map_filter (article_record rt) after) \<and>
         (map_of d ''Year'' = Some y \<longrightarrow> Publication_Date r = y) \<and>
         (map_of d ''Year'' = None \<and> map_of d ''MedlineDate'' = Some (PStr (ws @ t @ rest)) \<and>
            list_all is_space ws \<and> t \<noteq> [] \<and> list_all (\<lambda>c. \<not> is_space c) t \<and>
            (rest = [] \<or> is_space (hd rest)) \<longrightarrow>
            Publication_Date r = PStr t) \<and>
         (map_of d ''Year'' = None \<and> map_of d ''MedlineDate'' = None \<longrightarrow>
            Publication_Date r = PStr ''Unknown Date'')"
proof -
  have out: "fst (extract_paper_data rt xml_data debug w) =
           Inr (List.map_filter (article_record rt) before @ r #
                List.map_filter (article_record rt) after)"
    using extract_paper_data_fst[OF assms(1,2)] assms(6)
    by (simp add: map_filter_append List.map_filter_simps)
  have "pub_date_info_of (PDict info) = Inr (PDict d)"
    using assms(5)
  proof (elim disjE conjE)
    assume "map_of info ''Journal'' = Some (PDict journal)"
      and "map_of journal ''JournalIssue'' = Some (PDict issue)"
      and "map_of issue ''PubDate'' = Some (PDict d)"
    then show ?thesis by (rule pub_date_info_of_present)
  next
    assume "d = []" and "map_of info ''Journal'' = None"
    then show ?thesis using pub_date_info_of_absent[of info journal issue] by simp
  next
    assume "d = []" and "map_of info ''Journal'' = Some (PDict journal)"
      and "map_of journal ''JournalIssue'' = None"
    then show ?thesis using pub_date_info_of_absent[of info journal issue] by simp
  next
    assume "d = []" and "map_of info ''Journal'' = Some (PDict journal)"
      and "map_of journal ''JournalIssue'' = Some (PDict issue)"
      and "map_of issue ''PubDate'' = None"
    then show ?thesis using pub_date_info_of_absent[of info journal issue] by simp
  qed
  then have res: "resolve_pub_date (PDict d) = Inr (Publication_Date r)"
    using assms(3,4,6) by (intro article_record_pub_date)
  have y: "map_of d ''Year'' = Some y \<longrightarrow> Publication_Date r = y"
    using res by (auto simp: resolve_year)
  have m: "map_of d ''Year'' = None \<and> map_of d ''MedlineDate'' = Some (PStr (ws @ t @ rest)) \<and>
            list_all is_space ws \<and> t \<noteq> [] \<and> list_all (\<lambda>c. \<not> is_space c) t \<and>
            (rest = [] \<or> is_space (hd rest)) \<longrightarrow>
            Publication_Date r = PStr t"
  proof
    assume a: "map_of d ''Year'' = None \<and> map_of d ''MedlineDate'' = Some (PStr (ws @ t @ rest)) \<and>
            list_all is_space ws \<and> t \<noteq> [] \<and> list_all (\<lambda>c. \<not> is_space c) t \<and>
            (rest = [] \<or> is_space (hd rest))"
    then have "str_split (ws @ t @ rest) = t # str_split (tl rest)"
      by (intro str_split_first_token) simp_all
    with a have "resolve_pub_date (PDict d) = Inr (PStr t)"
      by (simp add: resolve_medline)
    with res show "Publication_Date r = PStr t" by simp
  qed
  have u: "map_of d ''Year'' = None \<and> map_of d ''MedlineDate'' = None \<longrightarrow>
            Publication_Date r = PStr ''Unknown Date''"
    using res by (auto simp: resolve_unknown)
  from out y m u show ?thesis by (intro conjI)
qed

theorem pub_date_tiered_fallback_witness:
  "articles_of (example_batch (PList [industry_article, medline_article '' '',
       medline_article [CHR 0xA0], undated_article])) =
     Inr [industry_article, medline_article '' '', medline_article [CHR 0xA0], undated_article] \<and>
   fst (extract_paper_data
          (example_runtime (example_batch (PList [industry_article, medline_article '' '',
             medline_article [CHR 0xA0], undated_article])))
          ''<xml/>'' False empty_world) =
     Inr [make_record (PStr ''31'') (PStr ''A study'') (PStr ''2021'') [''Jane Doe (Acme Pharma Inc.)''],
          make_record (PStr ''31'') (PStr ''A study'') (PStr ''2020'') [''Jane Doe (Acme Pharma Inc.)''],
          make_record (PStr ''31'') (PStr ''A study'') (PStr ''2020'') [''Jane Doe (Acme Pharma Inc.)''],
          make_record (PStr ''31'') (PStr ''A study'') (PStr ''Unknown Date'') [''Jane Doe (Acme Pharma Inc.)'']] \<and>
   Publication_Date
     (make_record (PStr ''31'') (PStr ''A study'') (PStr ''2021'') [''Jane Doe (Acme Pharma Inc.)'']) =
     PStr ''2021'' \<and>
   Publication_Date
     (make_record (PStr ''31'') (PStr ''A study'') (PStr ''2020'') [''Jane Doe (Acme Pharma Inc.)'']) =
     PStr ''2020'' \<and>
   Publication_Date
     (make_record (PStr ''31'') (PStr ''A study'') (PStr ''Unknown Date'') [''Jane Doe (Acme Pharma Inc.)'']) =
     PStr ''Unknown Date''"
proof -
  let ?T = "example_batch (PList [industry_article, medline_article '' '',
       medline_article [CHR 0xA0], undated_article])"
  let ?rt = "example_runtime ?T"
  let ?info = "\<lambda>pd. [(''ArticleTitle'', PStr ''A study''),
      (''Journal'', PDict [(''JournalIssue'', PDict [(''PubDate'', pd)])]),
      (''AuthorList'', PDict [(''Author'', example_author)])]"
  let ?cit = "\<lambda>pd. [(''PMID'', pmid_31), (''Article'', PDict (?info pd))]"
  let ?art = "\<lambda>pd. [(''MedlineCitation'', PDict (?cit pd))]"
  let ?uinfo = "[(''ArticleTitle'', PStr ''A study''),
      (''AuthorList'', PDict [(''Author'', example_author)])]"
  let ?ucit = "[(''PMID'', pmid_31), (''Article'', PDict ?uinfo)]"
  let ?uart = "[(''MedlineCitation'', PDict ?ucit)]"
  let ?dy = "[(''Year'', PStr ''2021'')]"
  let ?dm = "[(''MedlineDate'', PStr ''2020 Jan-Feb'')]"
  let ?dn = "[(''MedlineDate'', PStr (''2020'' @ [CHR 0xA0] @ ''Jan-Feb''))]"
  let ?r = "\<lambda>date. make_record (PStr ''31'') (PStr ''A study'') (PStr date) [''Jane Doe (Acme Pharma Inc.)'']"
  have p: "xmltodict_parse ?rt ''<xml/>'' = Inr ?T"
    by (rule parse_example)
  have a: "articles_of ?T =
      Inr [industry_article, medline_article '' '', medline_article [CHR 0xA0], undated_article]"
    by (rule articles_of_batch_list)
  have ey: "industry_article = PDict (?art (PDict ?dy))"
    by (simp add: industry_article_def example_article_def year_2021_def)
  have em: "medline_article '' '' = PDict (?art (PDict ?dm))"
    by (simp add: medline_article_def example_article_def)
  have en: "medline_article [CHR 0xA0] = PDict (?art (PDict ?dn))"
    by (simp add: medline_article_def example_article_def)
  have eu: "undated_article = PDict ?uart"
    by (simp add: undated_article_def)
  have mc: "map_of (?art pd) ''MedlineCitation'' = Some (PDict (?cit pd))" for pd
    by simp
  have ar: "map_of (?cit pd) ''Article'' = Some (PDict (?info pd))" for pd
    by simp
  have node: "(map_of (?info (PDict d)) ''Journal'' = Some (PDict [(''JournalIssue'', PDict [(''PubDate'', PDict d)])]) \<and>
          map_of [(''JournalIssue'', PDict [(''PubDate'', PDict d)])] ''JournalIssue'' =
            Some (PDict [(''PubDate'', PDict d)]) \<and>
          map_of [(''PubDate'', PDict d)] ''PubDate'' = Some (PDict d)) \<or>
         (d = [] \<and>
          (map_of (?info (PDict d)) ''Journal'' = None \<or>
           (map_of (?info (PDict d)) ''Journal'' = Some (PDict [(''JournalIssue'', PDict [(''PubDate'', PDict d)])]) \<and>
              (map_of [(''JournalIssue'', PDict [(''PubDate'', PDict d)])] ''JournalIssue'' = None \<or>
               (map_of [(''JournalIssue'', PDict [(''PubDate'', PDict d)])] ''JournalIssue'' =
                  Some (PDict [(''PubDate'', PDict d)]) \<and>
                map_of [(''PubDate'', PDict d)] ''PubDate'' = None)))))" for d
    by simp
  have ry: "article_record ?rt (PDict (?art (PDict ?dy))) = Some (?r ''2021'')"
    using article_record_industry[of ?rt] by (simp only: ey)
  have rm: "article_record ?rt (PDict (?art (PDict ?dm))) = Some (?r ''2020'')"
    using article_record_medline[of ?rt] by (simp only: em)
  have rn: "article_record ?rt (PDict (?art (PDict ?dn))) = Some (?r ''2020'')"
    using article_record_medline_nbsp[of ?rt] by (simp only: en)
  have ru: "article_record ?rt (PDict ?uart) = Some (?r ''Unknown Date'')"
    using article_record_undated[of ?rt] by (simp only: eu)
  have ay: "articles_of ?T = Inr ([] @ PDict (?art (PDict ?dy)) #
      [medline_article '' '', medline_article [CHR 0xA0], undated_article])"
    using a by (simp only: ey append_Nil)
  have am: "articles_of ?T = Inr ([industry_article] @ PDict (?art (PDict ?dm)) #
      [medline_article [CHR 0xA0], undated_article])"
    using a by (simp only: em append_Cons append_Nil)
  have an: "articles_of ?T = Inr ([industry_article, medline_article '' ''] @ PDict (?art (PDict ?dn)) #
      [undated_article])"
    using a by (simp only: en append_Cons append_Nil)
  have au: "articles_of ?T = Inr ([industry_article, medline_article '' '', medline_article [CHR 0xA0]] @
      PDict ?uart # [])"
    using a by (simp only: eu append_Cons append_Nil)
  note ty = pub_date_tiered_fallback[OF p ay mc ar node ry,
      where debug = False and w = empty_world and y = "PStr ''2021''"]
  have hy: "map_of ?dy ''Year'' = Some (PStr ''2021'')"
    by simp
  have 1: "Publication_Date (?r ''2021'') = PStr ''2021''"
    using ty[THEN conjunct2, THEN conjunct1, rule_format, OF hy] .
  note tm = pub_date_tiered_fallback[OF p am mc ar node rm,
      where debug = False and w = empty_world and ws = "[]" and t = "''2020''" and rest = "'' Jan-Feb''"]
  have hm: "map_of ?dm ''Year'' = None \<and>
      map_of ?dm ''MedlineDate'' = Some (PStr ([] @ ''2020'' @ '' Jan-Feb'')) \<and>
      list_all is_space [] \<and> ''2020'' \<noteq> [] \<and> list_all (\<lambda>c. \<not> is_space c) ''2020'' \<and>
      ('' Jan-Feb'' = [] \<or> is_space (hd '' Jan-Feb''))"
    by code_simp
  have 2: "Publication_Date (?r ''2020'') = PStr ''2020''"
    using tm[THEN conjunct2, THEN conjunct2, THEN conjunct1, rule_format, OF hm] .
  note tn = pub_date_tiered_fallback[OF p an mc ar node rn,
      where debug = False and w = empty_world and ws = "[]" and t = "''2020''"
        and rest = "CHR 0xA0 # ''Jan-Feb''"]
  have hn: "map_of ?dn ''Year'' = None \<and>
      map_of ?dn ''MedlineDate'' = Some (PStr ([] @ ''2020'' @ CHR 0xA0 # ''Jan-Feb'')) \<and>
      list_all is_space [] \<and> ''2020'' \<noteq> [] \<and> list_all (\<lambda>c. \<not> is_space c) ''2020'' \<and>
      (CHR 0xA0 # ''Jan-Feb'' = [] \<or> is_space (hd (CHR 0xA0 # ''Jan-Feb'')))"
    by code_simp
  have 4: "Publication_Date (?r ''2020'') = PStr ''2020''"
    using tn[THEN conjunct2, THEN conjunct2, THEN conjunct1, rule_format, OF hn] .
  have nodeu: "(map_of ?uinfo ''Journal'' = Some (PDict []) \<and>
          map_of [] ''JournalIssue'' = Some (PDict []) \<and>
          map_of [] ''PubDate'' = Some (PDict ([] :: (string \<times> pyval) list))) \<or>
         (([] :: (string \<times> pyval) list) = [] \<and>
          (map_of ?uinfo ''Journal'' = None \<or>
           (map_of ?uinfo ''Journal'' = Some (PDict []) \<and>
              (map_of [] ''JournalIssue'' = None \<or>
               (map_of [] ''JournalIssue'' = Some (PDict []) \<and>
                map_of ([] :: (string \<times> pyval) list) ''PubDate'' = None)))))"
    by simp
  have mcu: "map_of ?uart ''MedlineCitation'' = Some (PDict ?ucit)"
    by simp
  have aru: "map_of ?ucit ''Article'' = Some (PDict ?uinfo)"
    by simp
  note tu = pub_date_tiered_fallback[OF p au mcu aru nodeu ru,
      where debug = False and w = empty_world]
  have hu: "map_of ([] :: (string \<times> pyval) list) ''Year'' = None \<and>
            map_of ([] :: (string \<times> pyval) list) ''MedlineDate'' = None"
    by simp
  have 3: "Publication_Date (?r ''Unknown Date'') = PStr ''Unknown Date''"
    using tu[THEN conjunct2, THEN conjunct2, THEN conjunct2, rule_format, OF hu] .
  have "fst (extract_paper_data ?rt ''<xml/>'' False empty_world) =
      Inr (List.map_filter (article_record ?rt) [industry_article] @ ?r ''2020'' #
           List.map_filter (article_record ?rt) [medline_article [CHR 0xA0], undated_article])"
    using tm by (rule conjunct1)
  then have o: "fst (extract_paper_data ?rt ''<xml/>'' False empty_world) =
      Inr [?r ''2021'', ?r ''2020'', ?r ''2020'', ?r ''Unknown Date'']"
    by (simp only: List.map_filter_simps article_record_industry article_record_medline_nbsp
          article_record_undated option.case append_Cons append_Nil)
  from a o 1 2 3 show ?thesis by (intro conjI)
qed

text \<open>
  C10: for an article whose PubDate node has no \<^verbatim>\<open>Year\<close> field and a \<^verbatim>\<open>MedlineDate\<close> field
  that is empty or white space only, \<^verbatim>\<open>split()\<close> returns the empty list, indexing it raises
  IndexError, processing the article raises, and the article has no record whatever its
  authors are: the output of \<^verbatim>\<open>extract_paper_data\<close> is the one obtained without the article.
  When the PMID lookups of line 85 succeed the exception of the article is that
  IndexError.
\<close>

theorem blank_medline_date_skips_article:
  assumes "map_of article ''MedlineCitation'' = Some (PDict citation)"
    and "map_of citation ''Article'' = Some (PDict info)"
    and "map_of info ''Journal'' = Some (PDict journal)"
    and "map_of journal ''JournalIssue'' = Some (PDict issue)"
    and "map_of issue ''PubDate'' = Some (PDict d)"
    and "map_of d ''Year'' = None"
    and "map_of d ''MedlineDate'' = Some (PStr medline_date)"
    and "list_all is_space medline_date"
  shows "str_split medline_date = [] \<and>
         resolve_pub_date (PDict d) = Inl IndexError \<and>
         (\<exists>e. article_fields rt (PDict article) = Inl e) \<and>
         article_record rt (PDict article) = None \<and>
         (map_of citation ''PMID'' = Some pmid_node \<and> py_getitem pmid_node ''#text'' = Inr pmid \<longrightarrow>
            article_fields rt (PDict article) = Inl IndexError) \<and>
         fst (articles_loop rt debug (before @ PDict article # after) (papers, w)) =
           fst (articles_loop rt debug (before @ after) (papers, w)) \<and>
         (xmltodict_parse rt xml_data = Inr data_dict \<and>
          articles_of data_dict = Inr (before @ PDict article # after) \<longrightarrow>
            fst (extract_paper_data rt xml_data debug w) =
              Inr (List.map_filter (article_record rt) before @
                   List.map_filter (article_record rt) after))"
proof -
  have s: "str_split medline_date = []" using assms(8) by (rule str_split_blank)
  have r: "resolve_pub_date (PDict d) = Inl IndexError"
    using assms(6,7) s by (simp add: resolve_medline)
  have p: "pub_date_info_of (PDict info) = Inr (PDict d)"
    using assms(3,4,5) by (rule pub_date_info_of_present)
  have e: "\<exists>e. article_fields rt (PDict article) = Inl e"
    using assms(1,2) p r by (auto simp: article_fields_def ebind_def split: sum.splits option.splits)
  then have n: "article_record rt (PDict article) = None"
    by (auto simp: article_record_raise)
  have i: "map_of citation ''PMID'' = Some pmid_node \<and> py_getitem pmid_node ''#text'' = Inr pmid \<longrightarrow>
            article_fields rt (PDict article) = Inl IndexError"
    using assms(1,2) p r by (auto simp: article_fields_def ebind_def)
  have l: "fst (articles_loop rt debug (before @ PDict article # after) (papers, w)) =
           fst (articles_loop rt debug (before @ after) (papers, w))"
    using n by (simp add: articles_loop_fst map_filter_append List.map_filter_simps)
  have x: "xmltodict_parse rt xml_data = Inr data_dict \<and>
          articles_of data_dict = Inr (before @ PDict article # after) \<longrightarrow>
            fst (extract_paper_data rt xml_data debug w) =
              Inr (List.map_filter (article_record rt) before @
                   List.map_filter (article_record rt) after)"
  proof
    assume a: "xmltodict_parse rt xml_data = Inr data_dict \<and>
          articles_of data_dict = Inr (before @ PDict article # after)"
    from extract_paper_data_fst[OF conjunct1[OF a] conjunct2[OF a], of debug w] n
    show "fst (extract_paper_data rt xml_data debug w) =
              Inr (List.map_filter (article_record rt) before @
                   List.map_filter (article_record rt) after)"
      by (simp add: map_filter_append List.map_filter_simps)
  qed
  from s r e n i l x show ?thesis by (intro conjI)
qed

theorem blank_medline_date_skips_article_witness:
  "has_industry_author blank_date_article \<and>
   article_fields (example_runtime (example_batch (PList [industry_article, blank_date_article])))
     blank_date_article = Inl IndexError \<and>
   article_record (example_runtime (example_batch (PList [industry_article, blank_date_article])))
     blank_date_article = None \<and>
   fst (extract_paper_data (example_runtime (example_batch (PList [industry_article, blank_date_article])))
          ''<xml/>'' False empty_world) =
     Inr [make_record (PStr ''31'') (PStr ''A study'') (PStr ''2021'') [''Jane Doe (Acme Pharma Inc.)'']] \<and>
   has_industry_author nbsp_date_article \<and>
   list_all is_space [CHR 0xA0, CHR 0x85] \<and>
   article_fields (example_runtime PNone) nbsp_date_article = Inl IndexError \<and>
   article_record (example_runtime PNone) nbsp_date_article = None"
proof -
  let ?T = "example_batch (PList [industry_article, blank_date_article])"
  let ?rt = "example_runtime ?T"
  let ?info = "\<lambda>pd. [(''ArticleTitle'', PStr ''A study''),
      (''Journal'', PDict [(''JournalIssue'', PDict [(''PubDate'', pd)])]),
      (''AuthorList'', PDict [(''Author'', example_author)])]"
  let ?cit = "\<lambda>pd. [(''PMID'', pmid_31), (''Article'', PDict (?info pd))]"
  let ?art = "\<lambda>pd. [(''MedlineCitation'', PDict (?cit pd))]"
  let ?db = "[(''MedlineDate'', PStr ''  '')]"
  let ?dn = "[(''MedlineDate'', PStr [CHR 0xA0, CHR 0x85])]"
  have eb: "blank_date_article = PDict (?art (PDict ?db))"
    by (simp add: blank_date_article_def example_article_def)
  have en: "nbsp_date_article = PDict (?art (PDict ?dn))"
    by (simp add: nbsp_date_article_def example_article_def)
  have 1: "map_of (?art pd) ''MedlineCitation'' = Some (PDict (?cit pd))" for pd
    by simp
  have 2: "map_of (?cit pd) ''Article'' = Some (PDict (?info pd))" for pd
    by simp
  have 3: "map_of (?info pd) ''Journal'' = Some (PDict [(''JournalIssue'', PDict [(''PubDate'', pd)])])" for pd
    by simp
  have 4: "map_of [(''JournalIssue'', PDict [(''PubDate'', pd)])] ''JournalIssue'' =
      Some (PDict [(''PubDate'', pd)])" for pd
    by simp
  have 5: "map_of [(''PubDate'', pd)] ''PubDate'' = Some pd" for pd :: pyval
    by simp
  have 6: "map_of ?db ''Year'' = None"
    by simp
  have 7: "map_of ?db ''MedlineDate'' = Some (PStr ''  '')"
    by simp
  have 8: "list_all is_space ''  ''"
    by code_simp
  have p: "xmltodict_parse ?rt ''<xml/>'' = Inr ?T"
    by (rule parse_example)
  have a: "articles_of ?T = Inr ([industry_article] @ PDict (?art (PDict ?db)) # [])"
    using articles_of_batch_list[of "[industry_article, blank_date_article]"]
    by (simp only: eb append_Cons append_Nil)
  note t = blank_medline_date_skips_article[OF 1 2 3 4 5 6 7 8,
      where rt = ?rt and debug = False and before = "[industry_article]"
        and after = "[]" and papers = "[]" and w = empty_world
        and pmid_node = pmid_31 and pmid = "PStr ''31''"
        and xml_data = "''<xml/>''" and data_dict = ?T]
  have n: "article_record ?rt blank_date_article = None"
    using t[THEN conjunct2, THEN conjunct2, THEN conjunct2, THEN conjunct1] by (simp only: eb)
  have "fst (extract_paper_data ?rt ''<xml/>'' False empty_world) =
      Inr (List.map_filter (article_record ?rt) [industry_article] @
           List.map_filter (article_record ?rt) [])"
    using t[THEN conjunct2, THEN conjunct2, THEN conjunct2, THEN conjunct2, THEN conjunct2,
            THEN conjunct2, rule_format, OF conjI[OF p a]] .
  then have o: "fst (extract_paper_data ?rt ''<xml/>'' False empty_world) =
      Inr [make_record (PStr ''31'') (PStr ''A study'') (PStr ''2021'') [''Jane Doe (Acme Pharma Inc.)'']]"
    by (simp only: List.map_filter_simps article_record_industry option.case append_Cons append_Nil)
  have 9: "map_of ?dn ''Year'' = None"
    by simp
  have 10: "map_of ?dn ''MedlineDate'' = Some (PStr [CHR 0xA0, CHR 0x85])"
    by simp
  have 11: "list_all is_space [CHR 0xA0, CHR 0x85]"
    by code_simp
  note u = blank_medline_date_skips_article[OF 1 2 3 4 5 9 10 11,
      where rt = "example_runtime PNone" and debug = False and before = "[]"
        and after = "[]" and papers = "[]" and w = empty_world
        and pmid_node = pmid_31 and pmid = "PStr ''31''"
        and xml_data = "''<xml/>''" and data_dict = PNone]
  have m: "article_record (example_runtime PNone) nbsp_date_article = None"
    using u[THEN conjunct2, THEN conjunct2, THEN conjunct2, THEN conjunct1] by (simp only: en)
  from has_industry_author_examples(4) article_fields_blank_date n o
    has_industry_author_nbsp 11 article_fields_nbsp_date m
  show ?thesis by (intro conjI)
qed



text \<open>
  C8: keyword matching does not depend on letter case. Two affiliation strings with the
  same lower-casing are classified alike by the test of line 119, and
  \<^verbatim>\<open>pharmaceutical inc\<close> and \<^verbatim>\<open>PHARMACEUTICAL INC\<close> both match.
\<close>

theorem keyword_matching_ignores_case:
  "(str_lower s = str_lower s' \<longrightarrow>
      any_keyword COMPANY_KEYWORDS (PStr s) = any_keyword COMPANY_KEYWORDS (PStr s') \<and>
      matches_keyword s = matches_keyword s') \<and>
   any_keyword COMPANY_KEYWORDS (PStr ''pharmaceutical inc'') = Inr True \<and>
   any_keyword COMPANY_KEYWORDS (PStr ''PHARMACEUTICAL INC'') = Inr True"
proof (intro conjI impI)
  assume "str_lower s = str_lower s'"
  then show "any_keyword COMPANY_KEYWORDS (PStr s) = any_keyword COMPANY_KEYWORDS (PStr s')"
    by (simp add: any_keyword_str)
next
  assume "str_lower s = str_lower s'"
  then show "matches_keyword s = matches_keyword s'"
    by (simp add: matches_keyword_def)
next
  show "any_keyword COMPANY_KEYWORDS (PStr ''pharmaceutical inc'') = Inr True"
    by code_simp
next
  show "any_keyword COMPANY_KEYWORDS (PStr ''PHARMACEUTICAL INC'') = Inr True"
    by code_simp
qed

theorem keyword_matching_ignores_case_witness:
  "str_lower ''Acme Pharma Inc.'' = str_lower ''ACME PHARMA INC.'' \<and>
   any_keyword COMPANY_KEYWORDS (PStr ''Acme Pharma Inc.'') =
     any_keyword COMPANY_KEYWORDS (PStr ''ACME PHARMA INC.'') \<and>
   matches_keyword ''Acme Pharma Inc.'' = matches_keyword ''ACME PHARMA INC.''"
proof -
  have h: "str_lower ''Acme Pharma Inc.'' = str_lower ''ACME PHARMA INC.''"
    by code_simp
  from keyword_matching_ignores_case[THEN conjunct1, rule_format, OF h] h
  show ?thesis by (intro conjI) (elim conjE, assumption)+
qed

text \<open>
  C4: a collection that holds one element and is therefore a single node, not a list, is
  treated as the list of that one node. For the article collection the whole result of
  \<^verbatim>\<open>extract_paper_data\<close>, printed lines included, is the one obtained when the parsed tree
  holds the list of that one article instead; for a single author lines 99 to 105 yield
  the list of that author; for a single affiliation-info node the body of the author loop
  does what it does for the list of that node.
\<close>

theorem single_node_is_batch_of_one:
  "(\<not> is_list a \<and>
      xmltodict_parse rt x = Inr (PDict tree) \<and>
      map_of tree ''PubmedArticleSet'' = Some (PDict kvs) \<and>
      map_of kvs ''PubmedArticle'' = Some a \<and>
      xmltodict_parse rt x' = Inr (PDict tree') \<and>
      map_of tree' ''PubmedArticleSet'' = Some (PDict kvs') \<and>
      map_of kvs' ''PubmedArticle'' = Some (PList [a]) \<longrightarrow>
      articles_of (PDict tree) = Inr [a] \<and>
      extract_paper_data rt x debug w = extract_paper_data rt x' debug w) \<and>
   (\<not> is_list au \<and>
      map_of ai ''AuthorList'' = Some (PDict al) \<and> map_of al ''Author'' = Some au \<and>
      map_of ai' ''AuthorList'' = Some (PDict al') \<and> map_of al' ''Author'' = Some (PList [au]) \<longrightarrow>
      authors_of (PDict ai) = Inr [au] \<and> authors_of (PDict ai') = Inr [au]) \<and>
   (\<not> is_list v \<and>
      map_of au_kvs ''AffiliationInfo'' = Some v \<and>
      map_of au_kvs' ''AffiliationInfo'' = Some (PList [v]) \<and>
      map_of au_kvs' ''ForeName'' = map_of au_kvs ''ForeName'' \<and>
      map_of au_kvs' ''LastName'' = map_of au_kvs ''LastName'' \<longrightarrow>
      author_body rt (PDict au_kvs) naa = author_body rt (PDict au_kvs') naa)"
proof (intro conjI impI)
  assume h: "\<not> is_list a \<and>
      xmltodict_parse rt x = Inr (PDict tree) \<and>
      map_of tree ''PubmedArticleSet'' = Some (PDict kvs) \<and>
      map_of kvs ''PubmedArticle'' = Some a \<and>
      xmltodict_parse rt x' = Inr (PDict tree') \<and>
      map_of tree' ''PubmedArticleSet'' = Some (PDict kvs') \<and>
      map_of kvs' ''PubmedArticle'' = Some (PList [a])"
  then show "articles_of (PDict tree) = Inr [a]"
    by (simp add: articles_of_def ebind_def as_list_single)
  from h show "extract_paper_data rt x debug w = extract_paper_data rt x' debug w"
    by (simp add: extract_paper_data_def articles_of_def ebind_def as_list_single)
next
  assume h: "\<not> is_list au \<and>
      map_of ai ''AuthorList'' = Some (PDict al) \<and> map_of al ''Author'' = Some au \<and>
      map_of ai' ''AuthorList'' = Some (PDict al') \<and> map_of al' ''Author'' = Some (PList [au])"
  then show "authors_of (PDict ai) = Inr [au]"
    by (auto simp: authors_of_def ebind_def as_list_single)
  from h show "authors_of (PDict ai') = Inr [au]"
    by (auto simp: authors_of_def ebind_def)
next
  assume "\<not> is_list v \<and>
      map_of au_kvs ''AffiliationInfo'' = Some v \<and>
      map_of au_kvs' ''AffiliationInfo'' = Some (PList [v]) \<and>
      map_of au_kvs' ''ForeName'' = map_of au_kvs ''ForeName'' \<and>
      map_of au_kvs' ''LastName'' = map_of au_kvs ''LastName''"
  then show "author_body rt (PDict au_kvs) naa = author_body rt (PDict au_kvs') naa"
    by (simp add: author_body_def author_name_of_def ebind_def as_list_single)
qed

text \<open>A runtime that parses one document to the tree with the single article node and
  another to the tree with the list of that node.\<close>

theorem single_node_is_batch_of_one_witness:
  "articles_of (example_batch industry_article) = Inr [industry_article] \<and>
   extract_paper_data
     ((example_runtime PNone)\<lparr>xmltodict_parse :=
        (\<lambda>x. if x = ''one'' then Inr (example_batch industry_article)
              else Inr (example_batch (PList [industry_article])))\<rparr>) ''one'' True empty_world =
   extract_paper_data
     ((example_runtime PNone)\<lparr>xmltodict_parse :=
        (\<lambda>x. if x = ''one'' then Inr (example_batch industry_article)
              else Inr (example_batch (PList [industry_article])))\<rparr>) ''list'' True empty_world"
proof -
  let ?rt = "(example_runtime PNone)\<lparr>xmltodict_parse :=
        (\<lambda>x. if x = ''one'' then Inr (example_batch industry_article)
              else Inr (example_batch (PList [industry_article])))\<rparr>"
  have h: "\<not> is_list industry_article \<and>
      xmltodict_parse ?rt ''one'' = Inr (PDict [(''PubmedArticleSet'', PDict [(''PubmedArticle'', industry_article)])]) \<and>
      map_of [(''PubmedArticleSet'', PDict [(''PubmedArticle'', industry_article)])] ''PubmedArticleSet'' =
        Some (PDict [(''PubmedArticle'', industry_article)]) \<and>
      map_of [(''PubmedArticle'', industry_article)] ''PubmedArticle'' = Some industry_article \<and>
      xmltodict_parse ?rt ''list'' = Inr (PDict [(''PubmedArticleSet'', PDict [(''PubmedArticle'', PList [industry_article])])]) \<and>
      map_of [(''PubmedArticleSet'', PDict [(''PubmedArticle'', PList [industry_article])])] ''PubmedArticleSet'' =
        Some (PDict [(''PubmedArticle'', PList [industry_article])]) \<and>
      map_of [(''PubmedArticle'', PList [industry_article])] ''PubmedArticle'' = Some (PList [industry_article])"
    by (simp add: example_batch_def industry_article_def example_article_def)
  from single_node_is_batch_of_one[THEN conjunct1, rule_format, OF h, of True empty_world]
  show ?thesis by (simp add: example_batch_def)
qed

text \<open>
  C5: for the empty identifier list \<^verbatim>\<open>fetch_paper_details\<close> returns \<^verbatim>\<open>None\<close> and leaves the
  world as it was: no call of \<^verbatim>\<open>requests.get\<close> is made and nothing is printed, with or
  without \<^verbatim>\<open>debug\<close>.
\<close>

theorem fetch_of_no_ids_makes_no_request:
  "fetch_paper_details rt (PList []) debug w = (Inr None, w)"
  by (simp add: fetch_paper_details_def)

theorem fetch_of_no_ids_makes_no_request_witness:
  "fetch_paper_details (example_runtime PNone) (PList []) True empty_world = (Inr None, empty_world) \<and>
   http_gets (snd (fetch_paper_details (example_runtime PNone) (PList []) True empty_world)) = []"
proof -
  have f: "fetch_paper_details (example_runtime PNone) (PList []) True empty_world = (Inr None, empty_world)"
    by (rule fetch_of_no_ids_makes_no_request)
  then have "http_gets (snd (fetch_paper_details (example_runtime PNone) (PList []) True empty_world)) = []"
    by (simp add: empty_world_def)
  with f show ?thesis by (rule conjI)
qed

text \<open>
  C7: in a run of \<^verbatim>\<open>main\<close> in which the search returns identifiers, the fetch returns a
  non-empty text and \<^verbatim>\<open>extract_paper_data\<close> returns the empty list, \<^verbatim>\<open>main\<close> ends normally,
  the last line printed is \<^verbatim>\<open>No papers found with non-academic authors.\<close>, and no call of
  \<^verbatim>\<open>to_csv\<close> has been made, whatever \<^verbatim>\<open>args.file\<close> is.
\<close>

theorem no_papers_no_file:
  assumes "search_pubmed rt (arg_query a) (arg_max a) (arg_debug a)
             (print_line ([CHR 0x0A] @ ''Searching PubMed for: '' @ arg_query a)
                (debug_print (arg_debug a) (''[DEBUG] Arguments: '' @ repr_namespace rt a) w)) =
           (Inr pmids, w3)"
    and "truthy pmids"
    and "fetch_paper_details rt pmids (arg_debug a)
             (print_line ([CHR 0x0A] @ ''Fetching article details...'') w3) = (Inr (Some xml_data), w5)"
    and "xml_data \<noteq> []"
    and "extract_paper_data rt xml_data (arg_debug a)
             (print_line ([CHR 0x0A] @ ''Extracting required details...'') w5) = (Inr [], w7)"
  shows "main rt a w = (Inr (), print_line ''No papers found with non-academic authors.'' w7) \<and>
         last (stdout (snd (main rt a w))) = ''No papers found with non-academic authors.'' \<and>
         csv_writes (snd (main rt a w)) = csv_writes w"
proof -
  have m: "main rt a w = (Inr (), print_line ''No papers found with non-academic authors.'' w7)"
    using assms by (simp add: main_def Let_def)
  have "csv_writes w3 = csv_writes w"
    using search_pubmed_csv[of rt "arg_query a" "arg_max a" "arg_debug a"] assms(1)
    by (metis snd_conv print_line_csv debug_print_csv)
  moreover have "csv_writes w5 = csv_writes w3"
    using fetch_paper_details_csv[of rt pmids "arg_debug a"] assms(3)
    by (metis snd_conv print_line_csv)
  moreover have "csv_writes w7 = csv_writes w5"
    using extract_paper_data_csv[of rt xml_data "arg_debug a"] assms(5)
    by (metis snd_conv print_line_csv)
  ultimately have c: "csv_writes (snd (main rt a w)) = csv_writes w"
    using m by simp
  have l: "last (stdout (snd (main rt a w))) = ''No papers found with non-academic authors.''"
    using m by (simp add: print_line_def)
  from m l c show ?thesis by (intro conjI)
qed

theorem no_papers_no_file_witness:
  "arg_file example_args = Some ''out.csv'' \<and>
   fst (main (example_runtime (example_batch academic_article)) example_args empty_world) = Inr () \<and>
   last (stdout (snd (main (example_runtime (example_batch academic_article)) example_args empty_world))) =
     ''No papers found with non-academic authors.'' \<and>
   csv_writes (snd (main (example_runtime (example_batch academic_article)) example_args empty_world)) = []"
proof -
  let ?rt = "example_runtime (example_batch academic_article)"
  let ?w2 = "print_line ([CHR 0x0A] @ ''Searching PubMed for: '' @ arg_query example_args)
                (debug_print (arg_debug example_args)
                   (''[DEBUG] Arguments: '' @ repr_namespace ?rt example_args) empty_world)"
  define w3 where "w3 = snd (search_pubmed ?rt (arg_query example_args) (arg_max example_args)
                               (arg_debug example_args) ?w2)"
  define w5 where "w5 = snd (fetch_paper_details ?rt (PList [PStr ''31'']) (arg_debug example_args)
                               (print_line ([CHR 0x0A] @ ''Fetching article details...'') w3))"
  define w7 where "w7 = snd (extract_paper_data ?rt ''<PubmedArticleSet/>'' (arg_debug example_args)
                               (print_line ([CHR 0x0A] @ ''Extracting required details...'') w5))"
  have d: "arg_debug example_args = False" by (simp add: example_args_def)
  have "fst (search_pubmed ?rt (arg_query example_args) (arg_max example_args)
               (arg_debug example_args) ?w2) = Inr (PList [PStr ''31''])"
    by (simp add: search_pubmed_def example_runtime_def Let_def ebind_def d debug_print_def)
  then have s: "search_pubmed ?rt (arg_query example_args) (arg_max example_args)
               (arg_debug example_args) ?w2 = (Inr (PList [PStr ''31'']), w3)"
    by (simp add: w3_def prod_eq_iff)
  have t: "truthy (PList [PStr ''31''])" by simp
  have "fst (fetch_paper_details ?rt (PList [PStr ''31'']) (arg_debug example_args)
               (print_line ([CHR 0x0A] @ ''Fetching article details...'') w3)) =
        Inr (Some ''<PubmedArticleSet/>'')"
    by (simp add: fetch_paper_details_def example_runtime_def Let_def d debug_print_def)
  then have f: "fetch_paper_details ?rt (PList [PStr ''31'']) (arg_debug example_args)
               (print_line ([CHR 0x0A] @ ''Fetching article details...'') w3) =
        (Inr (Some ''<PubmedArticleSet/>''), w5)"
    by (simp add: w5_def prod_eq_iff)
  have x: "''<PubmedArticleSet/>'' \<noteq> []" by simp
  have n: "\<not> is_list academic_article"
    by (simp add: academic_article_def example_article_def)
  have "fst (extract_paper_data ?rt ''<PubmedArticleSet/>'' (arg_debug example_args)
               (print_line ([CHR 0x0A] @ ''Extracting required details...'') w5)) =
        Inr (List.map_filter (article_record ?rt) [academic_article])"
    by (rule extract_paper_data_fst[OF parse_example articles_of_batch_single[OF n]])
  then have "fst (extract_paper_data ?rt ''<PubmedArticleSet/>'' (arg_debug example_args)
               (print_line ([CHR 0x0A] @ ''Extracting required details...'') w5)) = Inr []"
    by (simp add: article_record_academic)
  then have e: "extract_paper_data ?rt ''<PubmedArticleSet/>'' (arg_debug example_args)
               (print_line ([CHR 0x0A] @ ''Extracting required details...'') w5) = (Inr [], w7)"
    by (simp add: w7_def prod_eq_iff)
  note r = no_papers_no_file[OF s t f x e]
  have 1: "fst (main ?rt example_args empty_world) = Inr ()"
    using r[THEN conjunct1] by simp
  have 2: "last (stdout (snd (main ?rt example_args empty_world))) =
     ''No papers found with non-academic authors.''"
    using r by (elim conjE)
  have "csv_writes (snd (main ?rt example_args empty_world)) = csv_writes empty_world"
    using r by (elim conjE)
  then have 3: "csv_writes (snd (main ?rt example_args empty_world)) = []"
    by (simp add: empty_world_def)
  have 0: "arg_file example_args = Some ''out.csv''"
    by (simp add: example_args_def)
  from 0 1 2 3 show ?thesis by (intro conjI)
qed

end
